theory Spec2Isabelle
  imports Main
begin

section \<open>Python values and the process environment\<close>

text \<open>
  A serial is a Python value that is either \<open>None\<close> or a \<open>str\<close>. Text is modelled as
  \<open>string\<close>; a character stands for a code point below 256, which covers what the two
  USB commands print.
\<close>

datatype pyval = PyNone | PyStr string

text \<open>Python truthiness of such a value: \<open>None\<close> and the empty string are false.\<close>

fun truthy :: "pyval \<Rightarrow> bool" where
  "truthy PyNone = False"
| "truthy (PyStr s) = (s \<noteq> [])"

text \<open>
  The exceptions that can arise in the code: \<open>subprocess.SubprocessError\<close>, the one class
  the code catches; \<open>OSError\<close>, which \<open>subprocess.run\<close> raises when the command cannot be
  started and which stands for every exception outside that class; and the
  \<open>UnicodeDecodeError\<close> of \<open>bytes.decode\<close>.
\<close>

datatype exception = SubprocessError | OSError | UnicodeDecodeError

text \<open>
  \<open>subprocess.run(cmdline, shell=True, capture_output=True)\<close> followed by
  \<open>result.stdout.decode()\<close>: the call returns and the output decodes to a text, or the
  call returns and the output does not decode, or the call raises.
\<close>

datatype completed = Completed string | Undecodable | Raises exception

text \<open>
  What a call of a function of the program comes to: it returns a result, or an
  exception leaves it. The second case keeps the state the objects are in when the
  exception leaves.
\<close>

datatype ('r, 's) outcome = Returned 'r | Raised exception 's

fun returns :: "('r, 's) outcome \<Rightarrow> bool" where
  "returns (Returned r) = True"
| "returns (Raised e s) = False"

text \<open>The result of a call that returns; nothing is said of a call that raises.\<close>

fun result :: "('r, 's) outcome \<Rightarrow> 'r" where
  "result (Returned r) = r"

fun raised :: "('r, 's) outcome \<Rightarrow> exception option" where
  "raised (Returned r) = None"
| "raised (Raised e s) = Some e"

text \<open>The state an exception leaves behind; nothing is said of a call that returns.\<close>

fun state_at_raise :: "('r, 's) outcome \<Rightarrow> 's" where
  "state_at_raise (Raised e s) = s"

text \<open>
  The environment is fixed from outside the program: what the \<open>n\<close>-th call of
  \<open>subprocess.run\<close> answers to a command line, and what the \<open>n\<close>-th reading of
  \<open>datetime.now()\<close> shows (microseconds, as a naive local time counted from
  \<open>datetime.fromtimestamp(0)\<close>).
\<close>

record environment =
  run :: "nat \<Rightarrow> string \<Rightarrow> completed"
  now :: "nat \<Rightarrow> int"

text \<open>
  The process state outside the objects: the command lines launched so far (oldest
  first), the number of clock readings taken, and the lines printed to the two streams.
\<close>

record world =
  runs :: "string list"
  clock_reads :: nat
  stdout :: "string list"
  stderr :: "string list"

definition subprocess_run :: "environment \<Rightarrow> string \<Rightarrow> world \<Rightarrow> completed \<times> world" where
  "subprocess_run E cmdline w = (run E (length (runs w)) cmdline, w\<lparr>runs := runs w @ [cmdline]\<rparr>)"

definition datetime_now :: "environment \<Rightarrow> world \<Rightarrow> int \<times> world" where
  "datetime_now E w = (now E (clock_reads w), w\<lparr>clock_reads := Suc (clock_reads w)\<rparr>)"

definition print_stdout :: "string \<Rightarrow> world \<Rightarrow> world" where
  "print_stdout msg w = w\<lparr>stdout := stdout w @ [msg]\<rparr>"

definition print_stderr :: "string \<Rightarrow> world \<Rightarrow> world" where
  "print_stderr msg w = w\<lparr>stderr := stderr w @ [msg]\<rparr>"

text \<open>
  \<open>print_err\<close> is imported from \<open>utils/util.py\<close>; \<open>app.py\<close> defines the function of the
  same name as \<open>print(*args, file=sys.stderr, **kwargs)\<close>, which is what is used here.
\<close>

definition print_err :: "string \<Rightarrow> world \<Rightarrow> world" where
  "print_err msg w = print_stderr msg w"

section \<open>Text helpers\<close>

text \<open>\<open>str.isspace\<close> and the regex class \<open>\s\<close> on code points below 256.\<close>

definition is_space :: "char \<Rightarrow> bool" where
  "is_space c = ((of_char c :: nat) \<in> {9, 10, 11, 12, 13, 28, 29, 30, 31, 32, 133, 160})"

text \<open>The regex class \<open>\d\<close> on code points below 256.\<close>

definition is_digit :: "char \<Rightarrow> bool" where
  "is_digit c = (c \<in> set ''0123456789'')"

text \<open>The regex class \<open>[0-9a-fA-F]\<close>.\<close>

definition is_hex :: "char \<Rightarrow> bool" where
  "is_hex c = (c \<in> set ''0123456789abcdefABCDEF'')"

text \<open>The line boundaries of \<open>str.splitlines\<close> below 256; CR LF is one boundary.\<close>

definition is_linebreak :: "char \<Rightarrow> bool" where
  "is_linebreak c = ((of_char c :: nat) \<in> {10, 11, 12, 13, 28, 29, 30, 133})"

fun splitlines_from :: "string \<Rightarrow> string \<Rightarrow> string list" where
  "splitlines_from cur [] = (if cur = [] then [] else [rev cur])"
| "splitlines_from cur [c] =
     (if is_linebreak c then [rev cur] else [rev (c # cur)])"
| "splitlines_from cur (c # d # cs) =
     (if c = CHR 0x0D \<and> d = CHR 0x0A then rev cur # splitlines_from [] cs
      else if is_linebreak c then rev cur # splitlines_from [] (d # cs)
      else splitlines_from (c # cur) (d # cs))"

definition splitlines :: "string \<Rightarrow> string list" where
  "splitlines s = splitlines_from [] s"

text \<open>
  Iterating over \<open>io.StringIO(text)\<close>: lines end at \<open>\n\<close> only and keep it.
\<close>

fun readlines_from :: "string \<Rightarrow> string \<Rightarrow> string list" where
  "readlines_from cur [] = (if cur = [] then [] else [rev cur])"
| "readlines_from cur (c # cs) =
     (if c = CHR 0x0A then rev (c # cur) # readlines_from [] cs
      else readlines_from (c # cur) cs)"

definition readlines :: "string \<Rightarrow> string list" where
  "readlines s = readlines_from [] s"

definition strip :: "string \<Rightarrow> string" where
  "strip s = rev (dropWhile is_space (rev (dropWhile is_space s)))"

text \<open>Matching a literal piece of a pattern at the head of the text.\<close>

fun literal :: "string \<Rightarrow> string \<Rightarrow> string option" where
  "literal [] s = Some s"
| "literal (p # ps) [] = None"
| "literal (p # ps) (c # cs) = (if p = c then literal ps cs else None)"

text \<open>\<open>str.startswith\<close>.\<close>

definition startswith :: "string \<Rightarrow> string \<Rightarrow> bool" where
  "startswith s p = (literal p s \<noteq> None)"

section \<open>The device: class \<open>SDR\<close>\<close>

record SDR =
  sdr_type :: string
  address :: string
  serial_probed :: pyval

definition SDR_init :: "string \<Rightarrow> string \<Rightarrow> SDR" where
  "SDR_init ty addr = \<lparr>sdr_type = ty, address = addr, serial_probed = PyNone\<rparr>"

text \<open>
  \<open>re.search(r"iSerial\s+\d+\s+(.*)$", line)\<close> on a line of \<open>splitlines\<close>, which holds
  no line break, so that \<open>(.*)$\<close> takes the rest of the line. The three greedy runs are
  over disjoint classes, so the match at a position is unique; \<open>serial_search\<close> takes
  the leftmost position and yields group 1.
\<close>

definition serial_at :: "string \<Rightarrow> string option" where
  "serial_at s =
     (case literal ''iSerial'' s of
        None \<Rightarrow> None
      | Some r1 \<Rightarrow>
          (let r2 = dropWhile is_space r1;
               r3 = dropWhile is_digit r2;
               r4 = dropWhile is_space r3
           in if r2 = r1 \<or> r3 = r2 \<or> r4 = r3 then None else Some r4))"

fun serial_search :: "string \<Rightarrow> string option" where
  "serial_search [] = serial_at []"
| "serial_search (c # cs) =
     (case serial_at (c # cs) of
        Some g \<Rightarrow> Some g
      | None \<Rightarrow> serial_search cs)"

text \<open>The loop over the lines of the verbose output: every matching line stores.\<close>

fun scan_serial :: "string list \<Rightarrow> SDR \<Rightarrow> SDR" where
  "scan_serial [] self = self"
| "scan_serial (line # rest) self =
     (case serial_search line of
        Some g \<Rightarrow> scan_serial rest (self\<lparr>serial_probed := PyStr (strip g)\<rparr>)
      | None \<Rightarrow> scan_serial rest self)"

definition lsusb_v :: "string \<Rightarrow> string" where
  "lsusb_v addr = ''lsusb -s '' @ addr @ '' -v''"

text \<open>
  The property \<open>SDR._serial\<close>. It returns the value read, the device as the read left
  it, and the world. The \<open>try\<close> holds the call of \<open>subprocess.run\<close> only and catches
  \<open>subprocess.SubprocessError\<close> only: any other exception of the call, and the
  \<open>UnicodeDecodeError\<close> of the \<open>decode\<close> after it, leave the property. The source's last
  line, \<open>return ""\<close>, follows a \<open>return\<close> and is never reached.
\<close>

definition SDR_serial :: "environment \<Rightarrow> SDR \<Rightarrow> world \<Rightarrow> (pyval \<times> SDR \<times> world, SDR \<times> world) outcome" where
  "SDR_serial E self w =
     (if truthy (serial_probed self) then Returned (serial_probed self, self, w)
      else
        (case subprocess_run E (lsusb_v (address self)) w of
           (Raises e, w1) \<Rightarrow>
             (if e = SubprocessError then
                Returned
                  (PyStr [],
                   self,
                   print_stderr (CHR 0x27 # lsusb_v (address self) @ CHR 0x27 # '' failed'') w1)
              else Raised e (self, w1))
         | (Undecodable, w1) \<Rightarrow> Raised UnicodeDecodeError (self, w1)
         | (Completed output, w1) \<Rightarrow>
             (let w2 = print_err (''lsusb -s '' @ address self @ '': '' @ output) w1;
                  self' = scan_serial (splitlines output) self
              in if \<not> truthy (serial_probed self') \<and> sdr_type self' = ''sdrplay''
                 then Returned (PyStr ''SDRplay w/o serial'', self', w2)
                 else Returned (serial_probed self', self', w2))))"


text \<open>
  \<open>SDR.__eq__\<close>. The other operand is any Python object; only another \<open>SDR\<close> can be
  equal. The two \<open>_json\<close> dictionaries are built, left one first, each reading its
  device's serial, and then compared.
\<close>

datatype pyobj = SDR_object SDR | Other_object

definition SDR_eq :: "environment \<Rightarrow> SDR \<Rightarrow> pyobj \<Rightarrow> world \<Rightarrow> (bool \<times> SDR \<times> pyobj \<times> world, SDR \<times> pyobj \<times> world) outcome" where
  "SDR_eq E self other w =
     (case other of
        SDR_object other_sdr \<Rightarrow>
          (case SDR_serial E self w of
             Raised e (self', w1) \<Rightarrow> Raised e (self', other, w1)
           | Returned (s1, self', w1) \<Rightarrow>
               (case SDR_serial E other_sdr w1 of
                  Raised e (other', w2) \<Rightarrow> Raised e (self', SDR_object other', w2)
                | Returned (s2, other', w2) \<Rightarrow>
                    Returned
                      (sdr_type self' = sdr_type other' \<and> address self' = address other' \<and> s1 = s2,
                       self', SDR_object other', w2)))
      | Other_object \<Rightarrow> Returned (False, self, other, w))"

section \<open>The registry: class \<open>SDRDevices\<close>\<close>

record SDRDevices =
  sdrs :: "SDR list"
  duplicates :: "pyval set"
  last_check :: int

definition SDRDevices_init :: SDRDevices where
  "SDRDevices_init = \<lparr>sdrs = [], duplicates = {}, last_check = 0\<rparr>"

text \<open>
  \<open>re.search(f"Bus ([0-9a-fA-F]+) Device ([0-9a-fA-F]+): ID {pidvid}", line)\<close>: each
  greedy run of hex digits is followed by a character that is no hex digit, so the match
  at a position is unique; \<open>address_search\<close> takes the leftmost position and yields the
  two groups.
\<close>

definition address_at :: "string \<Rightarrow> string \<Rightarrow> (string \<times> string) option" where
  "address_at pidvid s =
     (case literal ''Bus '' s of
        None \<Rightarrow> None
      | Some r1 \<Rightarrow>
          (if takeWhile is_hex r1 = [] then None
           else
             (case literal '' Device '' (dropWhile is_hex r1) of
                None \<Rightarrow> None
              | Some r2 \<Rightarrow>
                  (if takeWhile is_hex r2 = [] then None
                   else
                     (case literal ('': ID '' @ pidvid) (dropWhile is_hex r2) of
                        None \<Rightarrow> None
                      | Some r3 \<Rightarrow> Some (takeWhile is_hex r1, takeWhile is_hex r2))))))"

fun address_search :: "string \<Rightarrow> string \<Rightarrow> (string \<times> string) option" where
  "address_search pidvid [] = address_at pidvid []"
| "address_search pidvid (c # cs) =
     (case address_at pidvid (c # cs) of
        Some g \<Rightarrow> Some g
      | None \<Rightarrow> address_search pidvid cs)"

definition get_address_for_pid_vid :: "string \<Rightarrow> string \<Rightarrow> string" where
  "get_address_for_pid_vid pidvid line =
     (case address_search pidvid line of
        Some (g1, g2) \<Rightarrow> g1 @ '':'' @ g2
      | None \<Rightarrow> [])"

definition pidvids :: "string list" where
  "pidvids = [''1d50:60a1'', ''0bda:2838'', ''0bda:2832'', ''1df7:2500'', ''1df7:3000'', ''1df7:3050'']"

definition new_candidate :: "string \<Rightarrow> string \<Rightarrow> SDR" where
  "new_candidate pidvid addr =
     (if startswith pidvid ''1df7'' then SDR_init ''sdrplay'' addr
      else if pidvid = ''1d50:60a1'' then SDR_init ''airspy'' addr
      else SDR_init ''rtlsdr'' addr)"

text \<open>
  \<open>candidate in self.sdrs\<close>: the list compares each of its items with the candidate,
  item on the left, and stops at the first that is equal. The comparisons read serials,
  so the items and the candidate come back as the reads left them.
\<close>

fun list_contains :: "environment \<Rightarrow> SDR list \<Rightarrow> SDR \<Rightarrow> world \<Rightarrow> (bool \<times> SDR list \<times> SDR \<times> world, SDR list \<times> SDR \<times> world) outcome" where
  "list_contains E [] el w = Returned (False, [], el, w)"
| "list_contains E (item # rest) el w =
     (case SDR_eq E item (SDR_object el) w of
        Raised e (item', SDR_object el', w') \<Rightarrow> Raised e (item' # rest, el', w')
      | Raised e (item', Other_object, w') \<Rightarrow> Raised e (item' # rest, el, w')
      | Returned (b, item', SDR_object el', w') \<Rightarrow>
          (if b then Returned (True, item' # rest, el', w')
           else
             (case list_contains E rest el' w' of
                Raised e (rest', el'', w'') \<Rightarrow> Raised e (item' # rest', el'', w'')
              | Returned (b2, rest', el'', w'') \<Rightarrow> Returned (b2, item' # rest', el'', w'')))
      | Returned (b, item', Other_object, w') \<Rightarrow> Returned (False, item' # rest, el, w'))"

text \<open>The inner loop of \<open>get_sdr_info\<close>, over the identifier pairs, for one line.\<close>

fun scan_pidvids :: "environment \<Rightarrow> string \<Rightarrow> string list \<Rightarrow> SDR list \<times> world \<Rightarrow> (SDR list \<times> world, SDR list \<times> world) outcome" where
  "scan_pidvids E line [] (ds, w) = Returned (ds, w)"
| "scan_pidvids E line (pidvid # ps) (ds, w) =
     (let addr = get_address_for_pid_vid pidvid line
      in if addr \<noteq> [] then
           (let w1 = print_stdout (''get_sdr_info() found SDR '' @ pidvid @ '' at '' @ addr) w;
                candidate = new_candidate pidvid addr
            in case list_contains E ds candidate w1 of
                 Raised e (ds', candidate', w2) \<Rightarrow> Raised e (ds', w2)
               | Returned (found, ds', candidate', w2) \<Rightarrow>
                   scan_pidvids E line ps (if \<not> found then ds' @ [candidate'] else ds', w2))
         else scan_pidvids E line ps (ds, w))"

text \<open>The outer loop, over the lines of the listing.\<close>

fun scan_listing :: "environment \<Rightarrow> string list \<Rightarrow> SDR list \<times> world \<Rightarrow> (SDR list \<times> world, SDR list \<times> world) outcome" where
  "scan_listing E [] (ds, w) = Returned (ds, w)"
| "scan_listing E (line # rest) (ds, w) =
     (case scan_pidvids E line pidvids (ds, w) of
        Raised e s \<Rightarrow> Raised e s
      | Returned (ds', w') \<Rightarrow> scan_listing E rest (ds', w'))"

text \<open>
  The second loop of \<open>get_sdr_info\<close>. \<open>sdr._serial\<close> is read once for the test and once
  more for the \<open>add\<close>. It returns the devices as the reads left them and the set
  \<open>duplicates\<close>.
\<close>

fun find_duplicates :: "environment \<Rightarrow> SDR list \<Rightarrow> pyval set \<Rightarrow> pyval set \<Rightarrow> world \<Rightarrow> (SDR list \<times> pyval set \<times> world, SDR list \<times> pyval set \<times> world) outcome" where
  "find_duplicates E [] found_serials dups w = Returned ([], dups, w)"
| "find_duplicates E (sdr # rest) found_serials dups w =
     (case SDR_serial E sdr w of
        Raised e (sdr1, w1) \<Rightarrow> Raised e (sdr1 # rest, dups, w1)
      | Returned (s1, sdr1, w1) \<Rightarrow>
          (case SDR_serial E sdr1 w1 of
             Raised e (sdr2, w2) \<Rightarrow> Raised e (sdr2 # rest, dups, w2)
           | Returned (s2, sdr2, w2) \<Rightarrow>
               (case (if s1 \<in> found_serials
                      then find_duplicates E rest found_serials (insert s2 dups) w2
                      else find_duplicates E rest (insert s2 found_serials) dups w2) of
                  Raised e (rest', dups', w3) \<Rightarrow> Raised e (sdr2 # rest', dups', w3)
                | Returned (rest', dups', w3) \<Rightarrow> Returned (sdr2 # rest', dups', w3))))"

text \<open>
  \<open>get_sdr_info\<close>. The \<open>try\<close> holds the call of \<open>subprocess.run\<close> only and catches
  \<open>subprocess.SubprocessError\<close> only. An exception that leaves the method leaves the
  registry as the statements before it have made it: \<open>self.sdrs\<close> is reset and filled
  in place by the first loop, \<open>self.duplicates\<close> by the second.
\<close>

definition get_sdr_info :: "environment \<Rightarrow> SDRDevices \<times> world \<Rightarrow> (SDRDevices \<times> world, SDRDevices \<times> world) outcome" where
  "get_sdr_info E = (\<lambda>(self, w).
     (case subprocess_run E ''lsusb'' w of
        (Raises e, w1) \<Rightarrow>
          (if e = SubprocessError then Returned (self, print_stderr ''lsusb failed'' w1)
           else Raised e (self, w1))
      | (Undecodable, w1) \<Rightarrow> Raised UnicodeDecodeError (self, w1)
      | (Completed lsusb_text, w1) \<Rightarrow>
          (let w2 = print_err (''lsusb: '' @ lsusb_text) w1
           in case scan_listing E (readlines lsusb_text) ([], w2) of
                Raised e (ds, w3) \<Rightarrow> Raised e (self\<lparr>sdrs := ds\<rparr>, w3)
              | Returned (ds, w3) \<Rightarrow>
                  (case find_duplicates E ds {} {} w3 of
                     Raised e (ds', dups, w4) \<Rightarrow>
                       Raised e (self\<lparr>sdrs := ds', duplicates := dups\<rparr>, w4)
                   | Returned (ds', dups, w4) \<Rightarrow>
                       Returned (self\<lparr>sdrs := ds', duplicates := dups\<rparr>, w4)))))"

text \<open>\<open>timedelta(seconds=5.0)\<close> in microseconds.\<close>

definition ttl :: int where
  "ttl = 5000000"

text \<open>
  \<open>_ensure_populated\<close>. An exception that leaves \<open>get_sdr_info\<close> leaves this method
  too, before the assignment to \<open>_last_check\<close>.
\<close>

definition ensure_populated :: "environment \<Rightarrow> SDRDevices \<times> world \<Rightarrow> (SDRDevices \<times> world, SDRDevices \<times> world) outcome" where
  "ensure_populated E = (\<lambda>(self, w).
     (case datetime_now E w of
        (t1, w1) \<Rightarrow>
          (if t1 - last_check self < ttl then Returned (self, w1)
           else
             (case get_sdr_info E (self, w1) of
                Raised e s \<Rightarrow> Raised e s
              | Returned (self', w2) \<Rightarrow>
                  (case datetime_now E w2 of
                     (t2, w3) \<Rightarrow> Returned (self'\<lparr>last_check := t2\<rparr>, w3))))))"

section \<open>The frequency assignment: \<open>addresses_per_frequency\<close>\<close>

text \<open>
  The dictionary \<open>ret\<close>, from a frequency to a serial. The property takes no argument,
  so \<open>frequencies\<close> is always its default \<open>[1090, 978]\<close>.
\<close>

type_synonym frequency_dict = "int \<rightharpoonup> pyval"

definition initial_ret :: frequency_dict where
  "initial_ret = [1090 \<mapsto> PyStr [], 978 \<mapsto> PyStr []]"

text \<open>
  The loop over the devices. Every \<open>sdr._serial\<close> is a read of its own: one for an
  airspy; for an rtlsdr one for the first test, one more for the assignment or for the
  second test, and a third for the assignment to 978.
\<close>

fun assign_loop :: "environment \<Rightarrow> SDR list \<Rightarrow> frequency_dict \<Rightarrow> world \<Rightarrow> (SDR list \<times> frequency_dict \<times> world, SDR list \<times> world) outcome" where
  "assign_loop E [] ret w = Returned ([], ret, w)"
| "assign_loop E (sdr # rest) ret w =
     (if sdr_type sdr = ''airspy'' then
        (case SDR_serial E sdr w of
           Raised e (sdr1, w1) \<Rightarrow> Raised e (sdr1 # rest, w1)
         | Returned (s1, sdr1, w1) \<Rightarrow>
             (case assign_loop E rest (ret(1090 \<mapsto> s1)) w1 of
                Raised e (rest', w') \<Rightarrow> Raised e (sdr1 # rest', w')
              | Returned (rest', ret', w') \<Rightarrow> Returned (sdr1 # rest', ret', w')))
      else if sdr_type sdr = ''rtlsdr'' then
        (case SDR_serial E sdr w of
           Raised e (sdr1, w1) \<Rightarrow> Raised e (sdr1 # rest, w1)
         | Returned (s1, sdr1, w1) \<Rightarrow>
             (case SDR_serial E sdr1 w1 of
                Raised e (sdr2, w2) \<Rightarrow> Raised e (sdr2 # rest, w2)
              | Returned (s2, sdr2, w2) \<Rightarrow>
                  (if s1 \<in> {PyStr ''1090'', PyStr ''00001090''} then
                     (case assign_loop E rest (ret(1090 \<mapsto> s2)) w2 of
                        Raised e (rest', w') \<Rightarrow> Raised e (sdr2 # rest', w')
                      | Returned (rest', ret', w') \<Rightarrow> Returned (sdr2 # rest', ret', w'))
                   else if s2 \<in> {PyStr ''978'', PyStr ''00000978''} then
                     (case SDR_serial E sdr2 w2 of
                        Raised e (sdr3, w3) \<Rightarrow> Raised e (sdr3 # rest, w3)
                      | Returned (s3, sdr3, w3) \<Rightarrow>
                          (case assign_loop E rest (ret(978 \<mapsto> s3)) w3 of
                             Raised e (rest', w') \<Rightarrow> Raised e (sdr3 # rest', w')
                           | Returned (rest', ret', w') \<Rightarrow> Returned (sdr3 # rest', ret', w')))
                   else
                     (case assign_loop E rest ret w2 of
                        Raised e (rest', w') \<Rightarrow> Raised e (sdr2 # rest', w')
                      | Returned (rest', ret', w') \<Rightarrow> Returned (sdr2 # rest', ret', w')))))
      else
        (case assign_loop E rest ret w of
           Raised e (rest', w') \<Rightarrow> Raised e (sdr # rest', w')
         | Returned (rest', ret', w') \<Rightarrow> Returned (sdr # rest', ret', w')))"

text \<open>
  The test after the loop. \<open>ret\<close> holds both keys from its construction on, so the
  lookups \<open>ret[1090]\<close> and \<open>ret[978]\<close> find a value; a dictionary without them is
  returned as it is.
\<close>

definition lone_device :: "environment \<Rightarrow> SDR list \<Rightarrow> frequency_dict \<Rightarrow> world \<Rightarrow> (SDR list \<times> frequency_dict \<times> world, SDR list \<times> world) outcome" where
  "lone_device E ds ret w =
     (case (ret 1090, ret 978) of
        (Some a, Some b) \<Rightarrow>
          (if \<not> truthy a \<and> \<not> truthy b \<and> length ds = 1 then
             (case ds of
                [sdr] \<Rightarrow>
                  (case SDR_serial E sdr w of
                     Raised e (sdr', w') \<Rightarrow> Raised e ([sdr'], w')
                   | Returned (s, sdr', w') \<Rightarrow> Returned ([sdr'], ret(1090 \<mapsto> s), w'))
              | _ \<Rightarrow> Returned (ds, ret, w))
           else Returned (ds, ret, w))
      | _ \<Rightarrow> Returned (ds, ret, w))"

text \<open>
  The property \<open>addresses_per_frequency\<close>. The devices are the objects of \<open>self.sdrs\<close>,
  so the registry holds them as the reads left them, also when an exception leaves.
\<close>

definition addresses_per_frequency :: "environment \<Rightarrow> SDRDevices \<times> world \<Rightarrow> (frequency_dict \<times> SDRDevices \<times> world, SDRDevices \<times> world) outcome" where
  "addresses_per_frequency E = (\<lambda>(self, w).
     (case ensure_populated E (self, w) of
        Raised e s \<Rightarrow> Raised e s
      | Returned (self1, w1) \<Rightarrow>
          (case assign_loop E (sdrs self1) initial_ret w1 of
             Raised e (ds, w2) \<Rightarrow> Raised e (self1\<lparr>sdrs := ds\<rparr>, w2)
           | Returned (ds, ret, w2) \<Rightarrow>
               (case lone_device E ds ret w2 of
                  Raised e (ds', w3) \<Rightarrow> Raised e (self1\<lparr>sdrs := ds'\<rparr>, w3)
                | Returned (ds', ret', w3) \<Rightarrow> Returned (ret', self1\<lparr>sdrs := ds'\<rparr>, w3)))))"

section \<open>The consumer: \<open>sdr_info\<close> of \<open>app.py\<close>\<close>








section \<open>Notions used in the statements\<close>

definition empty_world :: world where
  "empty_world = \<lparr>runs = [], clock_reads = 0, stdout = [], stderr = []\<rparr>"

text \<open>
  The verbose query of an address answers the same way every time it is asked: the
  standing assumption of the design that a descriptor's serial does not change while the
  process runs.
\<close>

definition probes_steady :: "environment \<Rightarrow> bool" where
  "probes_steady E = (\<forall>n a. run E n (lsusb_v a) = run E 0 (lsusb_v a))"

text \<open>
  No verbose query ends in an exception that leaves \<open>_serial\<close>: each one completes with
  an output that decodes, or raises the \<open>SubprocessError\<close> that \<open>_serial\<close> catches.
\<close>

fun handled :: "completed \<Rightarrow> bool" where
  "handled (Completed output) = True"
| "handled Undecodable = False"
| "handled (Raises e) = (e = SubprocessError)"

definition probes_handled :: "environment \<Rightarrow> bool" where
  "probes_handled E = (\<forall>n a. handled (run E n (lsusb_v a)))"

text \<open>What \<open>scan_serial\<close> leaves in \<open>_serial_probed\<close>, as a function of what was there.\<close>

fun scan_value :: "string list \<Rightarrow> pyval \<Rightarrow> pyval" where
  "scan_value [] v = v"
| "scan_value (line # rest) v =
     (case serial_search line of
        Some g \<Rightarrow> scan_value rest (PyStr (strip g))
      | None \<Rightarrow> scan_value rest v)"

text \<open>The serial that a read of the device yields, taken in the empty world.\<close>

definition resolved :: "environment \<Rightarrow> SDR \<Rightarrow> pyval" where
  "resolved E d = fst (result (SDR_serial E d empty_world))"

definition device_key :: "SDR \<Rightarrow> string \<times> string" where
  "device_key d = (sdr_type d, address d)"

text \<open>
  The \<open>_json\<close> dictionary of a device, with the serial a read yields: type, address and
  resolved serial. \<open>SDR.__eq__\<close> compares two of these.
\<close>

definition json_of :: "environment \<Rightarrow> SDR \<Rightarrow> string \<times> string \<times> pyval" where
  "json_of E d = (sdr_type d, address d, resolved E d)"

text \<open>
  The invariant of the first loop of \<open>get_sdr_info\<close>: no two devices share type and
  address, and every device reads the serial a new device of its type and address would.
\<close>

definition well_kept :: "environment \<Rightarrow> SDR list \<Rightarrow> bool" where
  "well_kept E ds = (distinct (map device_key ds) \<and> list_all (\<lambda>j. j = json_of E (SDR_init (fst j) (fst (snd j)))) (map (json_of E) ds))"

text \<open>The second loop of \<open>get_sdr_info\<close> on the serials alone.\<close>

fun pure_dups :: "pyval list \<Rightarrow> pyval set \<Rightarrow> pyval set \<Rightarrow> pyval set" where
  "pure_dups [] found_serials dups = dups"
| "pure_dups (r # rs) found_serials dups =
     (if r \<in> found_serials then pure_dups rs found_serials (insert r dups)
      else pure_dups rs (insert r found_serials) dups)"

text \<open>The loop of \<open>addresses_per_frequency\<close> on the \<open>_json\<close> dictionaries alone.\<close>

fun pure_assign :: "(string \<times> string \<times> pyval) list \<Rightarrow> frequency_dict \<Rightarrow> frequency_dict" where
  "pure_assign [] ret = ret"
| "pure_assign ((t, a, s) # rest) ret =
     (if t = ''airspy'' then pure_assign rest (ret(1090 \<mapsto> s))
      else if t = ''rtlsdr'' then
        (if s \<in> {PyStr ''1090'', PyStr ''00001090''} then pure_assign rest (ret(1090 \<mapsto> s))
         else if s \<in> {PyStr ''978'', PyStr ''00000978''} then pure_assign rest (ret(978 \<mapsto> s))
         else pure_assign rest ret)
      else pure_assign rest ret)"

text \<open>The test after the loop of \<open>addresses_per_frequency\<close> on the dictionaries alone.\<close>

definition pure_lone :: "(string \<times> string \<times> pyval) list \<Rightarrow> frequency_dict \<Rightarrow> frequency_dict" where
  "pure_lone js ret =
     (case (ret 1090, ret 978) of
        (Some a, Some b) \<Rightarrow>
          (if \<not> truthy a \<and> \<not> truthy b \<and> length js = 1 then
             (case js of
                [(t, ad, s)] \<Rightarrow> ret(1090 \<mapsto> s)
              | _ \<Rightarrow> ret)
           else ret)
      | _ \<Rightarrow> ret)"

section \<open>Example environments\<close>

text \<open>
  One rtlsdr is listed by the first command of the process; every later \<open>lsusb\<close>
  raises \<open>SubprocessError\<close>. The verbose query reports serial \<open>00000001\<close>.
\<close>

definition lsusb_fails_later :: environment where
  "lsusb_fails_later =
     \<lparr>run = (\<lambda>n c.
        if c = ''lsusb'' then
          (if n = 0 then Completed (''Bus 001 Device 002: ID 0bda:2838 Realtek RTL2838'' @ [CHR 0x0A])
           else Raises SubprocessError)
        else Completed (''  iSerial                 3 00000001'' @ [CHR 0x0A])),
      now = (\<lambda>n. 10000000 + 1000000 * int n)\<rparr>"


text \<open>Every verbose query prints a descriptor without any \<open>iSerial\<close> line.\<close>

definition no_marker_env :: environment where
  "no_marker_env =
     \<lparr>run = (\<lambda>n c. Completed (''Device Descriptor:'' @ [CHR 0x0A] @ ''  idVendor           0x0bda Realtek'' @ [CHR 0x0A])),
      now = (\<lambda>n. 10000000 + 1000000 * int n)\<rparr>"

text \<open>An airspy is listed first, then an rtlsdr whose serial is \<open>1090\<close>.\<close>

definition airspy_first_env :: environment where
  "airspy_first_env =
     \<lparr>run = (\<lambda>n c.
        if c = ''lsusb'' then
          Completed (''Bus 001 Device 002: ID 1d50:60a1 OpenMoko, Inc. Airspy'' @ [CHR 0x0A] @
                     ''Bus 001 Device 003: ID 0bda:2838 Realtek RTL2838'' @ [CHR 0x0A])
        else if c = ''lsusb -s 001:002 -v'' then
          Completed (''  iSerial                 3 AIRSPY SN:1234'' @ [CHR 0x0A])
        else Completed (''  iSerial                 3 1090'' @ [CHR 0x0A])),
      now = (\<lambda>n. 10000000 + 1000000 * int n)\<rparr>"

text \<open>A single rtlsdr whose serial is \<open>978\<close>.\<close>

definition lone_978_env :: environment where
  "lone_978_env =
     \<lparr>run = (\<lambda>n c.
        if c = ''lsusb'' then
          Completed (''Bus 001 Device 003: ID 0bda:2838 Realtek RTL2838'' @ [CHR 0x0A])
        else Completed (''  iSerial                 3 978'' @ [CHR 0x0A])),
      now = (\<lambda>n. 10000000 + 1000000 * int n)\<rparr>"

text \<open>A single rtlsdr whose serial is \<open>00000001\<close>.\<close>

definition lone_rtlsdr_env :: environment where
  "lone_rtlsdr_env =
     \<lparr>run = (\<lambda>n c.
        if c = ''lsusb'' then
          Completed (''Bus 001 Device 003: ID 0bda:2838 Realtek RTL2838'' @ [CHR 0x0A])
        else Completed (''  iSerial                 3 00000001'' @ [CHR 0x0A])),
      now = (\<lambda>n. 10000000 + 1000000 * int n)\<rparr>"

text \<open>The listing shows the same rtlsdr on two lines.\<close>

definition twice_listed_env :: environment where
  "twice_listed_env =
     \<lparr>run = (\<lambda>n c.
        if c = ''lsusb'' then
          Completed (''Bus 001 Device 003: ID 0bda:2838 Realtek RTL2838'' @ [CHR 0x0A] @
                     ''Bus 001 Device 003: ID 0bda:2838 Realtek RTL2838'' @ [CHR 0x0A])
        else Completed (''  iSerial                 3 00000001'' @ [CHR 0x0A])),
      now = (\<lambda>n. 10000000 + 1000000 * int n)\<rparr>"

text \<open>Two rtlsdr devices at different addresses, both with serial \<open>1090\<close>.\<close>

definition two_1090_env :: environment where
  "two_1090_env =
     \<lparr>run = (\<lambda>n c.
        if c = ''lsusb'' then
          Completed (''Bus 001 Device 003: ID 0bda:2838 Realtek RTL2838'' @ [CHR 0x0A] @
                     ''Bus 001 Device 004: ID 0bda:2838 Realtek RTL2838'' @ [CHR 0x0A])
        else Completed (''  iSerial                 3 1090'' @ [CHR 0x0A])),
      now = (\<lambda>n. 10000000 + 1000000 * int n)\<rparr>"


text \<open>
  One rtlsdr is listed by the first command of the process; every later \<open>lsusb\<close>
  raises \<open>OSError\<close>, as when no process can be started. The verbose query reports
  serial \<open>00000001\<close>. The clock advances ten seconds per reading.
\<close>

definition lsusb_oserror_later :: environment where
  "lsusb_oserror_later =
     \<lparr>run = (\<lambda>n c.
        if c = ''lsusb'' then
          (if n = 0 then Completed (''Bus 001 Device 002: ID 0bda:2838 Realtek RTL2838'' @ [CHR 0x0A])
           else Raises OSError)
        else Completed (''  iSerial                 3 00000001'' @ [CHR 0x0A])),
      now = (\<lambda>n. 10000000 + 10000000 * int n)\<rparr>"

text \<open>
  A single rtlsdr whose descriptor shows no \<open>iSerial\<close> line for the first five verbose
  queries of the process and serial \<open>1090\<close> from then on.
\<close>

definition late_serial_env :: environment where
  "late_serial_env =
     \<lparr>run = (\<lambda>n c.
        if c = ''lsusb'' then
          Completed (''Bus 001 Device 003: ID 0bda:2838 Realtek RTL2838'' @ [CHR 0x0A])
        else if n < 6 then Completed (''Device Descriptor:'' @ [CHR 0x0A])
        else Completed (''  iSerial                 3 1090'' @ [CHR 0x0A])),
      now = (\<lambda>n. 10000000 + 1000000 * int n)\<rparr>"

text \<open>
  Two rtlsdr devices at different addresses. The descriptor of each shows an empty
  serial field, except at the fifth and the seventh command of the process, where it
  shows serial \<open>S\<close>.
\<close>

definition late_duplicates_env :: environment where
  "late_duplicates_env =
     \<lparr>run = (\<lambda>n c.
        if c = ''lsusb'' then
          Completed (''Bus 001 Device 003: ID 0bda:2838 Realtek RTL2838'' @ [CHR 0x0A] @
                     ''Bus 001 Device 004: ID 0bda:2838 Realtek RTL2838'' @ [CHR 0x0A])
        else if n = 4 \<or> n = 6 then Completed (''  iSerial                 3 S'' @ [CHR 0x0A])
        else Completed (''  iSerial                 0 '' @ [CHR 0x0A])),
      now = (\<lambda>n. 10000000 + 1000000 * int n)\<rparr>"

text \<open>
  The listing shows the same rtlsdr on two lines. Its descriptor shows an empty serial
  field at the first verbose query of the process and serial \<open>S\<close> from then on.
\<close>

definition flaky_twin_env :: environment where
  "flaky_twin_env =
     \<lparr>run = (\<lambda>n c.
        if c = ''lsusb'' then
          Completed (''Bus 001 Device 003: ID 0bda:2838 Realtek RTL2838'' @ [CHR 0x0A] @
                     ''Bus 001 Device 003: ID 0bda:2838 Realtek RTL2838'' @ [CHR 0x0A])
        else if n = 1 then Completed (''  iSerial                 0 '' @ [CHR 0x0A])
        else Completed (''  iSerial                 3 S'' @ [CHR 0x0A])),
      now = (\<lambda>n. 10000000 + 1000000 * int n)\<rparr>"


section \<open>Results, and the listing command that fails\<close>

lemma Returned_result: "returns X \<Longrightarrow> X = Returned (result X)"
  by (cases X) auto

lemma get_sdr_info_subprocess_error:
  "run E (length (runs w)) ''lsusb'' = Raises SubprocessError \<Longrightarrow>
   get_sdr_info E (self, w) =
     Returned (self, w\<lparr>runs := runs w @ [''lsusb''], stderr := stderr w @ [''lsusb failed'']\<rparr>)"
  by (simp add: get_sdr_info_def subprocess_run_def print_stderr_def)

lemma get_sdr_info_uncaught:
  "run E (length (runs w)) ''lsusb'' = Raises e \<Longrightarrow> e \<noteq> SubprocessError \<Longrightarrow>
   get_sdr_info E (self, w) = Raised e (self, w\<lparr>runs := runs w @ [''lsusb'']\<rparr>)"
  by (simp add: get_sdr_info_def subprocess_run_def)

lemma ensure_populated_fresh:
  "now E (clock_reads w) - last_check self < ttl \<Longrightarrow>
   ensure_populated E (self, w) = Returned (self, w\<lparr>clock_reads := Suc (clock_reads w)\<rparr>)"
  by (simp add: ensure_populated_def datetime_now_def)

lemma ensure_populated_stale:
  "\<not> now E (clock_reads w) - last_check self < ttl \<Longrightarrow>
   ensure_populated E (self, w) =
     (case get_sdr_info E (self, w\<lparr>clock_reads := Suc (clock_reads w)\<rparr>) of
        Raised e s \<Rightarrow> Raised e s
      | Returned (self', w2) \<Rightarrow>
          Returned (self'\<lparr>last_check := now E (clock_reads w2)\<rparr>,
                    w2\<lparr>clock_reads := Suc (clock_reads w2)\<rparr>))"
  by (simp add: ensure_populated_def datetime_now_def split: outcome.splits prod.splits)

text \<open>
  When the listing command raises the \<open>SubprocessError\<close> that \<open>get_sdr_info\<close> catches,
  the registry keeps its devices and duplicates and the timestamp is set.
\<close>

lemma ensure_populated_subprocess_error:
  assumes "5000000 \<le> now E (clock_reads w) - last_check self"
      and "run E (length (runs w)) ''lsusb'' = Raises SubprocessError"
  shows "ensure_populated E (self, w) =
      Returned (self\<lparr>last_check := now E (Suc (clock_reads w))\<rparr>,
       w\<lparr>clock_reads := Suc (Suc (clock_reads w)), runs := runs w @ [''lsusb''],
         stderr := stderr w @ [''lsusb failed'']\<rparr>)"
proof -
  let ?w1 = "w\<lparr>clock_reads := Suc (clock_reads w)\<rparr>"
  have stale: "\<not> now E (clock_reads w) - last_check self < ttl"
    using assms(1) by (simp add: ttl_def)
  have raised: "run E (length (runs ?w1)) ''lsusb'' = Raises SubprocessError"
    using assms(2) by simp
  show ?thesis
    by (simp add: ensure_populated_stale [OF stale] get_sdr_info_subprocess_error [OF raised])
qed

text \<open>
  When it raises anything else, the exception leaves \<open>_ensure_populated\<close> and the
  timestamp stays as it was.
\<close>

lemma ensure_populated_uncaught:
  assumes "5000000 \<le> now E (clock_reads w) - last_check self"
      and "run E (length (runs w)) ''lsusb'' = Raises e" and "e \<noteq> SubprocessError"
  shows "ensure_populated E (self, w) =
      Raised e (self, w\<lparr>clock_reads := Suc (clock_reads w), runs := runs w @ [''lsusb'']\<rparr>)"
proof -
  let ?w1 = "w\<lparr>clock_reads := Suc (clock_reads w)\<rparr>"
  have stale: "\<not> now E (clock_reads w) - last_check self < ttl"
    using assms(1) by (simp add: ttl_def)
  have raised: "run E (length (runs ?w1)) ''lsusb'' = Raises e"
    using assms(2) by simp
  show ?thesis
    by (simp add: ensure_populated_stale [OF stale] get_sdr_info_uncaught [OF raised assms(3)])
qed

text \<open>
  C3 on the code: after a first listing found a device, a listing command that raises
  \<open>OSError\<close> is not caught, the exception leaves \<open>get_sdr_info\<close> and nothing is logged.
  When the command raises the \<open>SubprocessError\<close> that is caught, \<open>get_sdr_info\<close>
  returns, and the device list is the one stored before, not an empty one.
\<close>

theorem get_sdr_info_propagates_OSError:
  "returns (get_sdr_info lsusb_oserror_later (SDRDevices_init, empty_world)) \<and>
   run lsusb_oserror_later
       (length (runs (snd (result (get_sdr_info lsusb_oserror_later (SDRDevices_init, empty_world))))))
       ''lsusb''
     = Raises OSError \<and>
   raised (get_sdr_info lsusb_oserror_later
     (result (get_sdr_info lsusb_oserror_later (SDRDevices_init, empty_world))))
     = Some OSError \<and>
   stderr (snd (state_at_raise (get_sdr_info lsusb_oserror_later
     (result (get_sdr_info lsusb_oserror_later (SDRDevices_init, empty_world))))))
     = stderr (snd (result (get_sdr_info lsusb_oserror_later (SDRDevices_init, empty_world)))) \<and>
   run lsusb_fails_later
       (length (runs (snd (result (get_sdr_info lsusb_fails_later (SDRDevices_init, empty_world))))))
       ''lsusb''
     = Raises SubprocessError \<and>
   returns (get_sdr_info lsusb_fails_later
     (result (get_sdr_info lsusb_fails_later (SDRDevices_init, empty_world)))) \<and>
   sdrs (fst (result (get_sdr_info lsusb_fails_later
     (result (get_sdr_info lsusb_fails_later (SDRDevices_init, empty_world))))))
     = [\<lparr>sdr_type = ''rtlsdr'', address = ''001:002'', serial_probed = PyStr ''00000001''\<rparr>]"
  by code_simp

text \<open>
  C10 on the code: a registry holds a device and its timestamp of 20 s; ten seconds
  later the listing command raises \<open>OSError\<close>. The exception leaves
  \<open>_ensure_populated\<close>, the device list is kept, and the timestamp still reads 20 s: it
  is not advanced.
\<close>

theorem ensure_populated_skips_timestamp_on_OSError:
  "returns (ensure_populated lsusb_oserror_later (SDRDevices_init, empty_world)) \<and>
   sdrs (fst (result (ensure_populated lsusb_oserror_later (SDRDevices_init, empty_world))))
     = [\<lparr>sdr_type = ''rtlsdr'', address = ''001:002'', serial_probed = PyStr ''00000001''\<rparr>] \<and>
   last_check (fst (result (ensure_populated lsusb_oserror_later (SDRDevices_init, empty_world))))
     = 20000000 \<and>
   now lsusb_oserror_later
       (clock_reads (snd (result (ensure_populated lsusb_oserror_later (SDRDevices_init, empty_world)))))
     = 30000000 \<and>
   run lsusb_oserror_later
       (length (runs (snd (result (ensure_populated lsusb_oserror_later (SDRDevices_init, empty_world))))))
       ''lsusb''
     = Raises OSError \<and>
   raised (ensure_populated lsusb_oserror_later
     (result (ensure_populated lsusb_oserror_later (SDRDevices_init, empty_world))))
     = Some OSError \<and>
   last_check (fst (state_at_raise (ensure_populated lsusb_oserror_later
     (result (ensure_populated lsusb_oserror_later (SDRDevices_init, empty_world))))))
     = 20000000 \<and>
   sdrs (fst (state_at_raise (ensure_populated lsusb_oserror_later
     (result (ensure_populated lsusb_oserror_later (SDRDevices_init, empty_world))))))
     = [\<lparr>sdr_type = ''rtlsdr'', address = ''001:002'', serial_probed = PyStr ''00000001''\<rparr>]"
  by code_simp

section \<open>Reading a serial\<close>

lemma scan_serial_eq: "scan_serial ls d = d\<lparr>serial_probed := scan_value ls (serial_probed d)\<rparr>"
  by (induction ls arbitrary: d) (auto split: option.splits)

lemma scan_value_const: "(\<forall>v. scan_value ls v = v) \<or> (\<exists>c. \<forall>v. scan_value ls v = c)"
proof (induction ls)
  case Nil
  show ?case by simp
next
  case (Cons l ls)
  show ?case
  proof (cases "serial_search l")
    case None
    with Cons show ?thesis by simp
  next
    case (Some g)
    then have "\<forall>v. scan_value (l # ls) v = scan_value ls (PyStr (strip g))" by simp
    then show ?thesis by blast
  qed
qed

lemma scan_value_idem: "scan_value ls (scan_value ls v) = scan_value ls v"
  using scan_value_const [of ls] by metis

lemma SDR_serial_fields:
  "SDR_serial E d w = Returned (v, d', w') \<Longrightarrow> sdr_type d' = sdr_type d \<and> address d' = address d"
  by (auto simp: SDR_serial_def scan_serial_eq Let_def subprocess_run_def
      split: if_splits completed.splits prod.splits)







lemma scan_value_no_marker:
  "\<forall>l \<in> set ls. serial_search l = None \<Longrightarrow> scan_value ls v = v"
  by (induction ls) auto

text \<open>
  Without a marker line the read of a device that has nothing stored yields the
  placeholder for an sdrplay and, for every other type, what \<open>_serial_probed\<close> holds:
  \<open>None\<close> on a new device.
\<close>

lemma serial_without_marker:
  assumes "run E (length (runs w)) (lsusb_v (address d)) = Completed out"
      and "\<not> truthy (serial_probed d)"
      and "\<forall>l \<in> set (splitlines out). serial_search l = None"
  shows "returns (SDR_serial E d w) \<and>
         fst (result (SDR_serial E d w))
           = (if sdr_type d = ''sdrplay'' then PyStr ''SDRplay w/o serial'' else serial_probed d)"
  using assms
  by (simp add: SDR_serial_def subprocess_run_def scan_serial_eq scan_value_no_marker Let_def)

text \<open>
  C5 on the code: for a descriptor without any \<open>iSerial\<close> line the read of a new rtlsdr
  or airspy returns \<open>None\<close>, not the empty string; the read of a new sdrplay returns the
  placeholder.
\<close>

theorem serial_without_marker_is_None:
  "returns (SDR_serial no_marker_env (SDR_init ''rtlsdr'' ''001:002'') empty_world) \<and>
   fst (result (SDR_serial no_marker_env (SDR_init ''rtlsdr'' ''001:002'') empty_world)) = PyNone \<and>
   returns (SDR_serial no_marker_env (SDR_init ''airspy'' ''001:002'') empty_world) \<and>
   fst (result (SDR_serial no_marker_env (SDR_init ''airspy'' ''001:002'') empty_world)) = PyNone \<and>
   returns (SDR_serial no_marker_env (SDR_init ''sdrplay'' ''001:002'') empty_world) \<and>
   fst (result (SDR_serial no_marker_env (SDR_init ''sdrplay'' ''001:002'') empty_world))
     = PyStr ''SDRplay w/o serial''"
  by code_simp

section \<open>Reads when the verbose query is steady\<close>

lemma SDR_serial_returns:
  assumes h: "probes_handled E"
  shows "\<exists>v d' w'. SDR_serial E d w = Returned (v, d', w')"
proof -
  have "handled (run E (length (runs w)) (lsusb_v (address d)))"
    using h unfolding probes_handled_def by blast
  then show ?thesis
    by (cases "run E (length (runs w)) (lsusb_v (address d))")
       (simp_all add: SDR_serial_def subprocess_run_def Let_def)
qed

lemma SDR_serial_steady:
  assumes s: "probes_steady E"
  shows "SDR_serial E d w = Returned (v, d', w') \<Longrightarrow>
         returns (SDR_serial E d w2) \<and> fst (result (SDR_serial E d w2)) = v"
proof -
  assume r: "SDR_serial E d w = Returned (v, d', w')"
  have "run E (length (runs w)) (lsusb_v (address d)) = run E 0 (lsusb_v (address d))"
       "run E (length (runs w2)) (lsusb_v (address d)) = run E 0 (lsusb_v (address d))"
    using s unfolding probes_steady_def by blast+
  with r show ?thesis
    by (cases "run E 0 (lsusb_v (address d))")
       (auto simp: SDR_serial_def subprocess_run_def Let_def split: if_splits)
qed

lemma SDR_serial_resolved:
  assumes s: "probes_steady E" and r: "SDR_serial E d w = Returned (v, d', w')"
  shows "resolved E d' = v"
proof (cases "truthy (serial_probed d)")
  case True
  with r have "d' = d" "v = serial_probed d" by (auto simp: SDR_serial_def)
  with True show ?thesis by (simp add: resolved_def SDR_serial_def)
next
  case False
  have eq: "run E (length (runs w)) (lsusb_v (address d)) = run E 0 (lsusb_v (address d))"
    using s unfolding probes_steady_def by blast
  show ?thesis
  proof (cases "run E 0 (lsusb_v (address d))")
    case Undecodable
    with False r eq show ?thesis by (simp add: SDR_serial_def subprocess_run_def)
  next
    case (Raises e)
    with False r eq have "e = SubprocessError" "d' = d" "v = PyStr []"
      by (auto simp: SDR_serial_def subprocess_run_def split: if_splits)
    with False Raises show ?thesis
      by (simp add: resolved_def SDR_serial_def subprocess_run_def empty_world_def)
  next
    case (Completed out)
    let ?x = "scan_value (splitlines out) (serial_probed d)"
    from False r eq Completed have d': "d' = d\<lparr>serial_probed := ?x\<rparr>"
      and v: "v = (if \<not> truthy ?x \<and> sdr_type d = ''sdrplay'' then PyStr ''SDRplay w/o serial'' else ?x)"
      by (auto simp: SDR_serial_def subprocess_run_def scan_serial_eq Let_def split: if_splits)
    show ?thesis
      using Completed v
      by (simp add: d' resolved_def SDR_serial_def subprocess_run_def empty_world_def
          scan_serial_eq Let_def scan_value_idem)
  qed
qed

lemma resolved_json: "json_of E d' = json_of E d \<Longrightarrow> resolved E d' = resolved E d"
  by (simp add: json_of_def)

text \<open>
  With steady and handled verbose queries every read returns, yields the resolved
  serial and leaves the \<open>_json\<close> dictionary as it is.
\<close>

lemma read_steady_ex:
  assumes s: "probes_steady E" and h: "probes_handled E"
  shows "\<exists>d' w'. SDR_serial E d w = Returned (resolved E d, d', w') \<and> json_of E d' = json_of E d"
proof -
  obtain v d' w' where r: "SDR_serial E d w = Returned (v, d', w')"
    using SDR_serial_returns [OF h] by blast
  have "fst (result (SDR_serial E d empty_world)) = v"
    using SDR_serial_steady [OF s r] by blast
  then have v: "v = resolved E d" by (simp add: resolved_def)
  have "resolved E d' = v" by (rule SDR_serial_resolved [OF s r])
  with v SDR_serial_fields [OF r] r show ?thesis by (simp add: json_of_def)
qed

lemma read_resolved:
  assumes s: "probes_steady E" and h: "probes_handled E"
  shows "returns (SDR_serial E d w) \<and> fst (result (SDR_serial E d w)) = resolved E d"
  using read_steady_ex [OF s h, of d w] by auto

lemma SDR_eq_steady:
  assumes s: "probes_steady E" and h: "probes_handled E"
  shows "\<exists>a' b' w'. SDR_eq E a (SDR_object b) w
           = Returned (json_of E a = json_of E b, a', SDR_object b', w') \<and>
         json_of E a' = json_of E a \<and> json_of E b' = json_of E b"
proof -
  obtain a1 w1 where ra: "SDR_serial E a w = Returned (resolved E a, a1, w1)"
    and ja: "json_of E a1 = json_of E a"
    using read_steady_ex [OF s h, of a w] by blast
  obtain b1 w2 where rb: "SDR_serial E b w1 = Returned (resolved E b, b1, w2)"
    and jb: "json_of E b1 = json_of E b"
    using read_steady_ex [OF s h, of b w1] by blast
  have "SDR_eq E a (SDR_object b) w
          = Returned (sdr_type a1 = sdr_type b1 \<and> address a1 = address b1 \<and> resolved E a = resolved E b,
              a1, SDR_object b1, w2)"
    by (simp add: SDR_eq_def ra rb)
  moreover have "(sdr_type a1 = sdr_type b1 \<and> address a1 = address b1 \<and> resolved E a = resolved E b)
                   = (json_of E a = json_of E b)"
    using ja jb by (auto simp: json_of_def)
  ultimately show ?thesis using ja jb by auto
qed

lemma list_contains_steady:
  assumes s: "probes_steady E" and h: "probes_handled E"
  shows "\<exists>ds' el' w'. list_contains E ds el w
           = Returned (json_of E el \<in> set (map (json_of E) ds), ds', el', w') \<and>
         map (json_of E) ds' = map (json_of E) ds \<and> json_of E el' = json_of E el"
proof (induction ds arbitrary: el w)
  case Nil
  show ?case by simp
next
  case (Cons item rest)
  obtain item1 el1 w1 where e: "SDR_eq E item (SDR_object el) w
      = Returned (json_of E item = json_of E el, item1, SDR_object el1, w1)"
    and j1: "json_of E item1 = json_of E item" and j2: "json_of E el1 = json_of E el"
    using SDR_eq_steady [OF s h, of item el w] by blast
  show ?case
  proof (cases "json_of E item = json_of E el")
    case True
    with e j1 j2 show ?thesis by simp
  next
    case False
    obtain rest2 el2 w2 where rec: "list_contains E rest el1 w1
        = Returned (json_of E el1 \<in> set (map (json_of E) rest), rest2, el2, w2)"
      and m: "map (json_of E) rest2 = map (json_of E) rest" and j3: "json_of E el2 = json_of E el1"
      using Cons.IH [of el1 w1] by blast
    from e False rec j1 j2 j3 m show ?thesis by auto
  qed
qed

section \<open>The enumeration keeps its devices apart\<close>

lemma device_key_json: "device_key d = (fst (json_of E d), fst (snd (json_of E d)))"
  by (simp add: device_key_def json_of_def)

lemma map_key_json:
  "map (json_of E) ds' = map (json_of E) ds \<Longrightarrow> map device_key ds' = map device_key ds"
proof -
  assume a: "map (json_of E) ds' = map (json_of E) ds"
  have "map device_key xs = map (\<lambda>j. (fst j, fst (snd j))) (map (json_of E) xs)" for xs
    by (simp add: device_key_json [of _ E])
  with a show ?thesis by metis
qed

lemma map_resolved_json:
  "map (json_of E) ds' = map (json_of E) ds \<Longrightarrow> map (resolved E) ds' = map (resolved E) ds"
proof -
  assume a: "map (json_of E) ds' = map (json_of E) ds"
  have "map (resolved E) xs = map (\<lambda>j. snd (snd j)) (map (json_of E) xs)" for xs
    by (simp add: json_of_def)
  with a show ?thesis by metis
qed

lemma well_kept_cong:
  "map (json_of E) ds' = map (json_of E) ds \<Longrightarrow> well_kept E ds' = well_kept E ds"
  using map_key_json [of E ds' ds] by (simp add: well_kept_def)

lemma well_kept_member:
  assumes k: "well_kept E ds" and c: "json_of E el = json_of E (SDR_init (sdr_type el) (address el))"
  shows "(json_of E el \<in> set (map (json_of E) ds)) = (device_key el \<in> set (map device_key ds))"
proof
  assume "json_of E el \<in> set (map (json_of E) ds)"
  then obtain x where "x \<in> set ds" "json_of E x = json_of E el" by auto
  then have "x \<in> set ds" "device_key x = device_key el"
    by (simp_all add: device_key_json [of _ E])
  then show "device_key el \<in> set (map device_key ds)"
    by (metis image_eqI set_map)
next
  assume "device_key el \<in> set (map device_key ds)"
  then obtain x where x: "x \<in> set ds" and kx: "device_key x = device_key el" by auto
  from k x have "json_of E x = json_of E (SDR_init (fst (json_of E x)) (fst (snd (json_of E x))))"
    by (auto simp: well_kept_def list_all_iff)
  then have "json_of E x = json_of E (SDR_init (sdr_type x) (address x))"
    by (simp add: json_of_def)
  with kx c have "json_of E x = json_of E el"
    by (simp add: device_key_def)
  with x show "json_of E el \<in> set (map (json_of E) ds)"
    by (metis image_eqI set_map)
qed

lemma well_kept_Nil: "well_kept E []"
  by (simp add: well_kept_def)

lemma distinct_json:
  assumes "distinct (map device_key ds)"
  shows "distinct (map (json_of E) ds)"
proof -
  have "map device_key ds = map (\<lambda>j. (fst j, fst (snd j))) (map (json_of E) ds)"
    by (simp add: device_key_json [of _ E])
  with assms show ?thesis by (metis distinct_map)
qed

lemma scan_pidvids_well_kept:
  assumes s: "probes_steady E" and h: "probes_handled E"
  shows "well_kept E ds \<Longrightarrow>
         \<exists>ds' w'. scan_pidvids E line ps (ds, w) = Returned (ds', w') \<and> well_kept E ds'"
proof (induction ps arbitrary: ds w)
  case Nil
  then show ?case by simp
next
  case (Cons pidvid ps)
  let ?addr = "get_address_for_pid_vid pidvid line"
  show ?case
  proof (cases "?addr = []")
    case True
    with Cons.IH [OF Cons.prems, of w] show ?thesis by simp
  next
    case False
    let ?w1 = "print_stdout (''get_sdr_info() found SDR '' @ pidvid @ '' at '' @ ?addr) w"
    let ?c = "new_candidate pidvid ?addr"
    let ?found = "json_of E ?c \<in> set (map (json_of E) ds)"
    obtain ds1 c1 w2 where lc: "list_contains E ds ?c ?w1 = Returned (?found, ds1, c1, w2)"
      and m: "map (json_of E) ds1 = map (json_of E) ds" and jc: "json_of E c1 = json_of E ?c"
      using list_contains_steady [OF s h, of ds ?c ?w1] by blast
    have cinit: "json_of E ?c = json_of E (SDR_init (sdr_type ?c) (address ?c))"
      by (simp add: new_candidate_def SDR_init_def json_of_def resolved_def)
    have k1: "well_kept E ds1" using well_kept_cong [OF m] Cons.prems by simp
    have "well_kept E (if \<not> ?found then ds1 @ [c1] else ds1)"
    proof (cases ?found)
      case True
      with k1 show ?thesis by simp
    next
      case nf: False
      with well_kept_member [OF Cons.prems cinit]
      have "device_key ?c \<notin> set (map device_key ds)" by simp
      moreover have "device_key c1 = device_key ?c"
        using jc by (simp add: device_key_json [of _ E])
      moreover have "map device_key ds1 = map device_key ds" by (rule map_key_json [OF m])
      moreover have "json_of E c1 = json_of E (SDR_init (fst (json_of E c1)) (fst (snd (json_of E c1))))"
        using jc cinit by (simp add: json_of_def)
      ultimately show ?thesis
        using k1 nf by (simp add: well_kept_def)
    qed
    from Cons.IH [OF this, of w2] False lc show ?thesis by (simp add: Let_def)
  qed
qed

lemma scan_listing_well_kept:
  assumes s: "probes_steady E" and h: "probes_handled E"
  shows "well_kept E ds \<Longrightarrow>
         \<exists>ds' w'. scan_listing E ls (ds, w) = Returned (ds', w') \<and> well_kept E ds'"
proof (induction ls arbitrary: ds w)
  case Nil
  then show ?case by simp
next
  case (Cons l ls)
  obtain ds1 w1 where p: "scan_pidvids E l pidvids (ds, w) = Returned (ds1, w1)"
    and k: "well_kept E ds1"
    using scan_pidvids_well_kept [OF s h Cons.prems, of l pidvids w] by blast
  from Cons.IH [OF k, of w1] p show ?case by simp
qed

lemma find_duplicates_steady:
  assumes s: "probes_steady E" and h: "probes_handled E"
  shows "\<exists>ds' w'. find_duplicates E ds F D w
           = Returned (ds', pure_dups (map (resolved E) ds) F D, w') \<and>
         map (json_of E) ds' = map (json_of E) ds"
proof (induction ds arbitrary: F D w)
  case Nil
  show ?case by simp
next
  case (Cons d ds)
  let ?r = "resolved E d"
  obtain d1 w1 where r1: "SDR_serial E d w = Returned (?r, d1, w1)"
    and j1: "json_of E d1 = json_of E d"
    using read_steady_ex [OF s h, of d w] by blast
  obtain d2 w2 where r2: "SDR_serial E d1 w1 = Returned (?r, d2, w2)"
    and j2: "json_of E d2 = json_of E d"
    using read_steady_ex [OF s h, of d1 w1] resolved_json [OF j1] j1 by auto
  show ?case
  proof (cases "?r \<in> F")
    case True
    obtain rest' ww where rec: "find_duplicates E ds F (insert ?r D) w2
        = Returned (rest', pure_dups (map (resolved E) ds) F (insert ?r D), ww)"
      and m: "map (json_of E) rest' = map (json_of E) ds"
      using Cons.IH [of F "insert ?r D" w2] by blast
    from r1 r2 True rec m j2 show ?thesis by simp
  next
    case False
    obtain rest' ww where rec: "find_duplicates E ds (insert ?r F) D w2
        = Returned (rest', pure_dups (map (resolved E) ds) (insert ?r F) D, ww)"
      and m: "map (json_of E) rest' = map (json_of E) ds"
      using Cons.IH [of "insert ?r F" D w2] by blast
    from r1 r2 False rec m j2 show ?thesis by simp
  qed
qed

lemma pure_dups_iff:
  "s \<in> pure_dups rs F D \<longleftrightarrow> s \<in> D \<or> (s \<in> F \<and> s \<in> set rs) \<or> 1 < count_list rs s"
proof (induction rs arbitrary: F D)
  case Nil
  show ?case by simp
next
  case (Cons r rs)
  show ?case
    using Cons.IH [of F "insert r D"] Cons.IH [of "insert r F" D]
    by (cases "s = r") (auto simp: count_list_0_iff)
qed

lemma count_list_map_filter:
  "count_list (map f xs) s = length (filter (\<lambda>x. f x = s) xs)"
  by (induction xs) auto

lemma get_sdr_info_completed:
  assumes s: "probes_steady E" and h: "probes_handled E"
    and c: "run E (length (runs w)) ''lsusb'' = Completed listing"
  shows "\<exists>ds dups w'. get_sdr_info E (self, w) = Returned (self\<lparr>sdrs := ds, duplicates := dups\<rparr>, w') \<and>
           well_kept E ds \<and> dups = pure_dups (map (resolved E) ds) {} {}"
proof -
  let ?w2 = "print_err (''lsusb: '' @ listing) (w\<lparr>runs := runs w @ [''lsusb'']\<rparr>)"
  obtain ds w3 where sl: "scan_listing E (readlines listing) ([], ?w2) = Returned (ds, w3)"
    and k: "well_kept E ds"
    using scan_listing_well_kept [OF s h well_kept_Nil, of "readlines listing" ?w2] by blast
  obtain ds' w4 where fd: "find_duplicates E ds {} {} w3
      = Returned (ds', pure_dups (map (resolved E) ds) {} {}, w4)"
    and m: "map (json_of E) ds' = map (json_of E) ds"
    using find_duplicates_steady [OF s h, of ds "{}" "{}" w3] by blast
  have res: "get_sdr_info E (self, w)
      = Returned (self\<lparr>sdrs := ds', duplicates := pure_dups (map (resolved E) ds) {} {}\<rparr>, w4)"
    using c sl fd by (simp add: get_sdr_info_def subprocess_run_def Let_def)
  have k': "well_kept E ds'" using k well_kept_cong [OF m] by simp
  have "get_sdr_info E (self, w)
      = Returned (self\<lparr>sdrs := ds', duplicates := pure_dups (map (resolved E) ds') {} {}\<rparr>, w4)"
    using res map_resolved_json [OF m] by simp
  with k' show ?thesis by blast
qed

lemma ensure_populated_completed:
  assumes s: "probes_steady E" and h: "probes_handled E"
      and t: "5000000 \<le> now E (clock_reads w) - last_check self"
      and c: "run E (length (runs w)) ''lsusb'' = Completed listing"
  shows "\<exists>ds dups t' w'. ensure_populated E (self, w)
           = Returned (self\<lparr>sdrs := ds, duplicates := dups, last_check := t'\<rparr>, w') \<and>
           well_kept E ds \<and> dups = pure_dups (map (resolved E) ds) {} {}"
proof -
  let ?w1 = "w\<lparr>clock_reads := Suc (clock_reads w)\<rparr>"
  have stale: "\<not> now E (clock_reads w) - last_check self < ttl"
    using t by (simp add: ttl_def)
  have c1: "run E (length (runs ?w1)) ''lsusb'' = Completed listing" using c by simp
  obtain ds dups w2 where g: "get_sdr_info E (self, ?w1)
      = Returned (self\<lparr>sdrs := ds, duplicates := dups\<rparr>, w2)"
    and k: "well_kept E ds" "dups = pure_dups (map (resolved E) ds) {} {}"
    using get_sdr_info_completed [OF s h c1, of self] by blast
  have "ensure_populated E (self, w)
      = Returned (self\<lparr>sdrs := ds, duplicates := dups, last_check := now E (clock_reads w2)\<rparr>,
                  w2\<lparr>clock_reads := Suc (clock_reads w2)\<rparr>)"
    by (simp add: ensure_populated_stale [OF stale] g)
  with k show ?thesis by blast
qed

text \<open>
  C8, as the code has it. Provided the verbose query of an address answers the same way
  every time and never ends in an exception that \<open>_serial\<close> does not catch, the device
  list that \<open>get_sdr_info\<close> stores for any listing text holds no two equal devices: the
  \<open>_json\<close> dictionaries are pairwise different, so \<open>__eq__\<close> is false for any two
  positions. \<open>__eq__\<close> is true exactly when type, address and resolved serial agree,
  and false against anything that is not an \<open>SDR\<close>.
\<close>

theorem enumerated_devices_distinct:
  assumes "probes_steady E" and "probes_handled E"
      and "run E (length (runs w)) ''lsusb'' = Completed listing"
  shows "returns (get_sdr_info E (self, w)) \<and>
         distinct (map (json_of E) (sdrs (fst (result (get_sdr_info E (self, w)))))) \<and>
         (\<forall>i j w'. i < j \<and> j < length (sdrs (fst (result (get_sdr_info E (self, w))))) \<longrightarrow>
            returns (SDR_eq E (sdrs (fst (result (get_sdr_info E (self, w)))) ! i)
                     (SDR_object (sdrs (fst (result (get_sdr_info E (self, w)))) ! j)) w') \<and>
            \<not> fst (result (SDR_eq E (sdrs (fst (result (get_sdr_info E (self, w)))) ! i)
                     (SDR_object (sdrs (fst (result (get_sdr_info E (self, w)))) ! j)) w'))) \<and>
         (\<forall>a b w'. returns (SDR_eq E a (SDR_object b) w') \<and>
            fst (result (SDR_eq E a (SDR_object b) w'))
            = (sdr_type a = sdr_type b \<and> address a = address b \<and> resolved E a = resolved E b)) \<and>
         (\<forall>a w'. returns (SDR_eq E a Other_object w') \<and> \<not> fst (result (SDR_eq E a Other_object w'))) \<and>
         (\<forall>d w'. returns (SDR_serial E d w') \<and> fst (result (SDR_serial E d w')) = resolved E d)"
proof -
  let ?ds = "sdrs (fst (result (get_sdr_info E (self, w))))"
  have eq: "returns (SDR_eq E a (SDR_object b) w') \<and>
            fst (result (SDR_eq E a (SDR_object b) w')) = (json_of E a = json_of E b)" for a b w'
    using SDR_eq_steady [OF assms(1,2), of a b w'] by auto
  obtain ds dups w2 where g: "get_sdr_info E (self, w)
      = Returned (self\<lparr>sdrs := ds, duplicates := dups\<rparr>, w2)" and k: "well_kept E ds"
    using get_sdr_info_completed [OF assms, of self] by blast
  have ret: "returns (get_sdr_info E (self, w))" and ds: "?ds = ds" by (simp_all add: g)
  have d: "distinct (map (json_of E) ?ds)"
    using k by (simp add: ds well_kept_def distinct_json)
  have "returns (SDR_eq E (?ds ! i) (SDR_object (?ds ! j)) w') \<and>
        \<not> fst (result (SDR_eq E (?ds ! i) (SDR_object (?ds ! j)) w'))"
    if "i < j" "j < length ?ds" for i j w'
  proof -
    from that d have "map (json_of E) ?ds ! i \<noteq> map (json_of E) ?ds ! j"
      by (simp add: distinct_conv_nth)
    with that show ?thesis by (simp add: eq)
  qed
  moreover have "returns (SDR_eq E a Other_object w') \<and> \<not> fst (result (SDR_eq E a Other_object w'))"
    for a w'
    by (simp add: SDR_eq_def)
  ultimately show ?thesis
    using ret d eq read_resolved [OF assms(1,2)] by (simp add: json_of_def)
qed

theorem enumerated_devices_distinct_witness:
  "probes_steady twice_listed_env \<and> probes_handled twice_listed_env \<and>
   run twice_listed_env (length (runs empty_world)) ''lsusb''
     = Completed (''Bus 001 Device 003: ID 0bda:2838 Realtek RTL2838'' @ [CHR 0x0A] @
                  ''Bus 001 Device 003: ID 0bda:2838 Realtek RTL2838'' @ [CHR 0x0A]) \<and>
   sdrs (fst (result (get_sdr_info twice_listed_env (SDRDevices_init, empty_world))))
     = [\<lparr>sdr_type = ''rtlsdr'', address = ''001:003'', serial_probed = PyStr ''00000001''\<rparr>] \<and>
   distinct (map (json_of twice_listed_env)
     (sdrs (fst (result (get_sdr_info twice_listed_env (SDRDevices_init, empty_world))))))"
proof -
  have s: "probes_steady twice_listed_env"
    by (simp add: probes_steady_def twice_listed_env_def)
  have h: "probes_handled twice_listed_env"
    by (simp add: probes_handled_def twice_listed_env_def)
  have c: "run twice_listed_env (length (runs empty_world)) ''lsusb''
     = Completed (''Bus 001 Device 003: ID 0bda:2838 Realtek RTL2838'' @ [CHR 0x0A] @
                  ''Bus 001 Device 003: ID 0bda:2838 Realtek RTL2838'' @ [CHR 0x0A])"
    by (simp add: twice_listed_env_def)
  have l: "sdrs (fst (result (get_sdr_info twice_listed_env (SDRDevices_init, empty_world))))
     = [\<lparr>sdr_type = ''rtlsdr'', address = ''001:003'', serial_probed = PyStr ''00000001''\<rparr>]"
    by code_simp
  from enumerated_devices_distinct [OF s h c, of SDRDevices_init] s h c l show ?thesis
    by blast
qed

text \<open>
  C8 as the spec states it fails: the listing shows one device on two lines, and its
  descriptor shows an empty serial at the first query and \<open>S\<close> afterwards. The second
  candidate is compared while the first still reads empty, so both are stored, and then
  both have the same type, address and serial; \<open>__eq__\<close> of the two is true.
\<close>

theorem enumerated_devices_distinct_counterexample:
  "run flaky_twin_env (length (runs empty_world)) ''lsusb''
     = Completed (''Bus 001 Device 003: ID 0bda:2838 Realtek RTL2838'' @ [CHR 0x0A] @
                  ''Bus 001 Device 003: ID 0bda:2838 Realtek RTL2838'' @ [CHR 0x0A]) \<and>
   returns (get_sdr_info flaky_twin_env (SDRDevices_init, empty_world)) \<and>
   sdrs (fst (result (get_sdr_info flaky_twin_env (SDRDevices_init, empty_world))))
     = [\<lparr>sdr_type = ''rtlsdr'', address = ''001:003'', serial_probed = PyStr ''S''\<rparr>,
        \<lparr>sdr_type = ''rtlsdr'', address = ''001:003'', serial_probed = PyStr ''S''\<rparr>] \<and>
   returns (SDR_eq flaky_twin_env
     (sdrs (fst (result (get_sdr_info flaky_twin_env (SDRDevices_init, empty_world)))) ! 0)
     (SDR_object (sdrs (fst (result (get_sdr_info flaky_twin_env (SDRDevices_init, empty_world)))) ! 1))
     (snd (result (get_sdr_info flaky_twin_env (SDRDevices_init, empty_world))))) \<and>
   fst (result (SDR_eq flaky_twin_env
     (sdrs (fst (result (get_sdr_info flaky_twin_env (SDRDevices_init, empty_world)))) ! 0)
     (SDR_object (sdrs (fst (result (get_sdr_info flaky_twin_env (SDRDevices_init, empty_world)))) ! 1))
     (snd (result (get_sdr_info flaky_twin_env (SDRDevices_init, empty_world))))))"
  by code_simp

section \<open>The assignment\<close>

lemma assign_loop_steady:
  assumes s: "probes_steady E" and h: "probes_handled E"
  shows "\<exists>ds' w'. assign_loop E ds ret w
           = Returned (ds', pure_assign (map (json_of E) ds) ret, w') \<and>
         map (json_of E) ds' = map (json_of E) ds"
proof (induction ds arbitrary: ret w)
  case Nil
  show ?case by simp
next
  case (Cons d ds)
  let ?r = "resolved E d"
  obtain d1 w1 where r1: "SDR_serial E d w = Returned (?r, d1, w1)" and j1: "json_of E d1 = json_of E d"
    using read_steady_ex [OF s h, of d w] by blast
  obtain d2 w2 where r2: "SDR_serial E d1 w1 = Returned (?r, d2, w2)" and j2: "json_of E d2 = json_of E d"
    using read_steady_ex [OF s h, of d1 w1] resolved_json [OF j1] j1 by auto
  obtain d3 w3 where r3: "SDR_serial E d2 w2 = Returned (?r, d3, w3)" and j3: "json_of E d3 = json_of E d"
    using read_steady_ex [OF s h, of d2 w2] resolved_json [OF j2] j2 by auto
  have jd: "json_of E d = (sdr_type d, address d, ?r)" by (simp add: json_of_def)
  consider (airspy) "sdr_type d = ''airspy''"
    | (r1090) "sdr_type d = ''rtlsdr''" "?r \<in> {PyStr ''1090'', PyStr ''00001090''}"
    | (r978) "sdr_type d = ''rtlsdr''" "?r \<notin> {PyStr ''1090'', PyStr ''00001090''}"
        "?r \<in> {PyStr ''978'', PyStr ''00000978''}"
    | (rnone) "sdr_type d = ''rtlsdr''" "?r \<notin> {PyStr ''1090'', PyStr ''00001090''}"
        "?r \<notin> {PyStr ''978'', PyStr ''00000978''}"
    | (other) "sdr_type d \<noteq> ''airspy''" "sdr_type d \<noteq> ''rtlsdr''"
    by blast
  then show ?case
  proof cases
    case airspy
    obtain rest' ww where rec: "assign_loop E ds (ret(1090 \<mapsto> ?r)) w1
        = Returned (rest', pure_assign (map (json_of E) ds) (ret(1090 \<mapsto> ?r)), ww)"
      and m: "map (json_of E) rest' = map (json_of E) ds"
      using Cons.IH [of "ret(1090 \<mapsto> ?r)" w1] by blast
    have p: "pure_assign (json_of E d # map (json_of E) ds) ret
               = pure_assign (map (json_of E) ds) (ret(1090 \<mapsto> ?r))"
      using airspy by (simp add: jd)
    have "assign_loop E (d # ds) ret w
            = Returned (d1 # rest', pure_assign (map (json_of E) ds) (ret(1090 \<mapsto> ?r)), ww)"
      using airspy r1 rec by simp
    with p m j1 show ?thesis by simp
  next
    case r1090
    obtain rest' ww where rec: "assign_loop E ds (ret(1090 \<mapsto> ?r)) w2
        = Returned (rest', pure_assign (map (json_of E) ds) (ret(1090 \<mapsto> ?r)), ww)"
      and m: "map (json_of E) rest' = map (json_of E) ds"
      using Cons.IH [of "ret(1090 \<mapsto> ?r)" w2] by blast
    have p: "pure_assign (json_of E d # map (json_of E) ds) ret
               = pure_assign (map (json_of E) ds) (ret(1090 \<mapsto> ?r))"
      using r1090 by (simp add: jd)
    have "assign_loop E (d # ds) ret w
            = Returned (d2 # rest', pure_assign (map (json_of E) ds) (ret(1090 \<mapsto> ?r)), ww)"
      using r1090 r1 r2 rec by simp
    with p m j2 show ?thesis by simp
  next
    case r978
    obtain rest' ww where rec: "assign_loop E ds (ret(978 \<mapsto> ?r)) w3
        = Returned (rest', pure_assign (map (json_of E) ds) (ret(978 \<mapsto> ?r)), ww)"
      and m: "map (json_of E) rest' = map (json_of E) ds"
      using Cons.IH [of "ret(978 \<mapsto> ?r)" w3] by blast
    have p: "pure_assign (json_of E d # map (json_of E) ds) ret
               = pure_assign (map (json_of E) ds) (ret(978 \<mapsto> ?r))"
      using r978 by (simp add: jd)
    have "assign_loop E (d # ds) ret w
            = Returned (d3 # rest', pure_assign (map (json_of E) ds) (ret(978 \<mapsto> ?r)), ww)"
      using r978 r1 r2 r3 rec by simp
    with p m j3 show ?thesis by simp
  next
    case rnone
    obtain rest' ww where rec: "assign_loop E ds ret w2
        = Returned (rest', pure_assign (map (json_of E) ds) ret, ww)"
      and m: "map (json_of E) rest' = map (json_of E) ds"
      using Cons.IH [of ret w2] by blast
    have p: "pure_assign (json_of E d # map (json_of E) ds) ret
               = pure_assign (map (json_of E) ds) ret"
      using rnone by (simp add: jd)
    have "assign_loop E (d # ds) ret w
            = Returned (d2 # rest', pure_assign (map (json_of E) ds) ret, ww)"
      using rnone r1 r2 rec by simp
    with p m j2 show ?thesis by simp
  next
    case other
    obtain rest' ww where rec: "assign_loop E ds ret w
        = Returned (rest', pure_assign (map (json_of E) ds) ret, ww)"
      and m: "map (json_of E) rest' = map (json_of E) ds"
      using Cons.IH [of ret w] by blast
    have p: "pure_assign (json_of E d # map (json_of E) ds) ret
               = pure_assign (map (json_of E) ds) ret"
      using other by (simp add: jd)
    have "assign_loop E (d # ds) ret w
            = Returned (d # rest', pure_assign (map (json_of E) ds) ret, ww)"
      using other rec by simp
    with p m show ?thesis by simp
  qed
qed

lemma lone_device_steady:
  assumes s: "probes_steady E" and h: "probes_handled E"
  shows "\<exists>ds' w'. lone_device E ds ret w
           = Returned (ds', pure_lone (map (json_of E) ds) ret, w') \<and>
         map (json_of E) ds' = map (json_of E) ds"
proof (cases "\<exists>a b d. ret 1090 = Some a \<and> ret 978 = Some b \<and> \<not> truthy a \<and> \<not> truthy b \<and> ds = [d]")
  case False
  then have "lone_device E ds ret w = Returned (ds, ret, w)"
    by (auto simp: lone_device_def split: option.splits list.splits)
  moreover from False have "pure_lone (map (json_of E) ds) ret = ret"
    by (auto simp: pure_lone_def split: option.splits list.splits)
  ultimately show ?thesis by simp
next
  case True
  then obtain a b d where ab: "ret 1090 = Some a" "ret 978 = Some b" "\<not> truthy a" "\<not> truthy b"
    and ds: "ds = [d]" by blast
  obtain d1 w1 where r1: "SDR_serial E d w = Returned (resolved E d, d1, w1)"
    and j1: "json_of E d1 = json_of E d"
    using read_steady_ex [OF s h, of d w] by blast
  have "lone_device E ds ret w = Returned ([d1], ret(1090 \<mapsto> resolved E d), w1)"
    using ab ds r1 by (simp add: lone_device_def)
  moreover have "pure_lone (map (json_of E) ds) ret = ret(1090 \<mapsto> resolved E d)"
    using ab ds by (simp add: pure_lone_def json_of_def)
  ultimately show ?thesis using j1 ds by simp
qed

lemma addresses_steady:
  assumes s: "probes_steady E" and h: "probes_handled E"
    and ep: "ensure_populated E (self, w) = Returned (self1, w1)"
  shows "\<exists>ds' w'. addresses_per_frequency E (self, w)
           = Returned (pure_lone (map (json_of E) (sdrs self1))
                         (pure_assign (map (json_of E) (sdrs self1)) initial_ret),
                       self1\<lparr>sdrs := ds'\<rparr>, w') \<and>
         map (json_of E) ds' = map (json_of E) (sdrs self1)"
proof -
  let ?js = "map (json_of E) (sdrs self1)"
  obtain ds w2 where al: "assign_loop E (sdrs self1) initial_ret w1
      = Returned (ds, pure_assign ?js initial_ret, w2)"
    and m: "map (json_of E) ds = ?js"
    using assign_loop_steady [OF s h, of "sdrs self1" initial_ret w1] by blast
  obtain ds' w3 where ld: "lone_device E ds (pure_assign ?js initial_ret) w2
      = Returned (ds', pure_lone (map (json_of E) ds) (pure_assign ?js initial_ret), w3)"
    and m': "map (json_of E) ds' = map (json_of E) ds"
    using lone_device_steady [OF s h, of ds "pure_assign ?js initial_ret" w2] by blast
  have "addresses_per_frequency E (self, w)
          = Returned (pure_lone (map (json_of E) ds) (pure_assign ?js initial_ret),
                      self1\<lparr>sdrs := ds'\<rparr>, w3)"
    using ep al ld by (simp add: addresses_per_frequency_def)
  then have "addresses_per_frequency E (self, w)
          = Returned (pure_lone ?js (pure_assign ?js initial_ret), self1\<lparr>sdrs := ds'\<rparr>, w3)"
    by (simp only: m)
  moreover have "map (json_of E) ds' = ?js" using m m' by simp
  ultimately show ?thesis by blast
qed

lemma prior_ensure_populated:
  "addresses_per_frequency E (self0, w0) = Returned (ret, self, w) \<Longrightarrow>
   \<exists>self1 w1. ensure_populated E (self0, w0) = Returned (self1, w1)"
  by (cases "ensure_populated E (self0, w0)") (auto simp: addresses_per_frequency_def)

text \<open>
  C1 on the code: with an airspy listed before an rtlsdr whose serial is \<open>1090\<close>, the
  1090 entry is the rtlsdr's serial and not the airspy's.
\<close>

theorem airspy_overwritten_by_later_rtlsdr:
  "returns (addresses_per_frequency airspy_first_env (SDRDevices_init, empty_world)) \<and>
   fst (result (addresses_per_frequency airspy_first_env (SDRDevices_init, empty_world))) 1090
     = Some (PyStr ''1090'') \<and>
   sdrs (fst (snd (result (addresses_per_frequency airspy_first_env (SDRDevices_init, empty_world)))))
     = [\<lparr>sdr_type = ''airspy'', address = ''001:002'', serial_probed = PyStr ''AIRSPY SN:1234''\<rparr>,
        \<lparr>sdr_type = ''rtlsdr'', address = ''001:003'', serial_probed = PyStr ''1090''\<rparr>]"
  by code_simp

text \<open>
  C2, as the code has it. With exactly one device in the registry and verbose queries
  that are steady and handled, 1090 maps to the device's serial and 978 to the empty
  string, unless the device is an rtlsdr whose serial is \<open>978\<close> or \<open>00000978\<close>: then
  978 maps to that serial and 1090 to the empty string.
\<close>

theorem lone_device_assignment:
  assumes "probes_steady E" and "probes_handled E"
      and "returns (ensure_populated E (self, w))"
      and "sdrs (fst (result (ensure_populated E (self, w)))) = [d]"
  shows "returns (addresses_per_frequency E (self, w)) \<and>
         fst (result (addresses_per_frequency E (self, w))) 1090
           = (if sdr_type d = ''rtlsdr'' \<and> resolved E d \<in> {PyStr ''978'', PyStr ''00000978''}
              then Some (PyStr []) else Some (resolved E d)) \<and>
         fst (result (addresses_per_frequency E (self, w))) 978
           = (if sdr_type d = ''rtlsdr'' \<and> resolved E d \<in> {PyStr ''978'', PyStr ''00000978''}
              then Some (resolved E d) else Some (PyStr [])) \<and>
         (\<forall>w'. returns (SDR_serial E d w') \<and> fst (result (SDR_serial E d w')) = resolved E d)"
proof -
  obtain self1 w1 where ep: "ensure_populated E (self, w) = Returned (self1, w1)"
    using Returned_result [OF assms(3)] by (cases "result (ensure_populated E (self, w))") auto
  with assms(4) have l: "sdrs self1 = [d]" by simp
  let ?r = "resolved E d"
  let ?js = "map (json_of E) (sdrs self1)"
  have js: "?js = [(sdr_type d, address d, ?r)]" by (simp add: l json_of_def)
  obtain ds' w' where q: "addresses_per_frequency E (self, w)
      = Returned (pure_lone ?js (pure_assign ?js initial_ret), self1\<lparr>sdrs := ds'\<rparr>, w')"
    using addresses_steady [OF assms(1,2) ep] by blast
  have "pure_lone ?js (pure_assign ?js initial_ret) 1090
           = (if sdr_type d = ''rtlsdr'' \<and> ?r \<in> {PyStr ''978'', PyStr ''00000978''}
              then Some (PyStr []) else Some ?r) \<and>
         pure_lone ?js (pure_assign ?js initial_ret) 978
           = (if sdr_type d = ''rtlsdr'' \<and> ?r \<in> {PyStr ''978'', PyStr ''00000978''}
              then Some ?r else Some (PyStr []))"
    unfolding js by (cases ?r) (auto simp: pure_lone_def initial_ret_def)
  with q read_resolved [OF assms(1,2)] show ?thesis by simp
qed

theorem lone_device_assignment_witness:
  "probes_steady lone_rtlsdr_env \<and> probes_handled lone_rtlsdr_env \<and>
   returns (ensure_populated lone_rtlsdr_env (SDRDevices_init, empty_world)) \<and>
   sdrs (fst (result (ensure_populated lone_rtlsdr_env (SDRDevices_init, empty_world))))
     = [\<lparr>sdr_type = ''rtlsdr'', address = ''001:003'', serial_probed = PyStr ''00000001''\<rparr>] \<and>
   resolved lone_rtlsdr_env
     \<lparr>sdr_type = ''rtlsdr'', address = ''001:003'', serial_probed = PyStr ''00000001''\<rparr>
     = PyStr ''00000001'' \<and>
   returns (addresses_per_frequency lone_rtlsdr_env (SDRDevices_init, empty_world)) \<and>
   fst (result (addresses_per_frequency lone_rtlsdr_env (SDRDevices_init, empty_world))) 1090
     = Some (PyStr ''00000001'') \<and>
   fst (result (addresses_per_frequency lone_rtlsdr_env (SDRDevices_init, empty_world))) 978
     = Some (PyStr [])"
proof -
  have s: "probes_steady lone_rtlsdr_env"
    by (simp add: probes_steady_def lone_rtlsdr_env_def)
  have h: "probes_handled lone_rtlsdr_env"
    by (simp add: probes_handled_def lone_rtlsdr_env_def)
  have e: "returns (ensure_populated lone_rtlsdr_env (SDRDevices_init, empty_world))"
    by code_simp
  have l: "sdrs (fst (result (ensure_populated lone_rtlsdr_env (SDRDevices_init, empty_world))))
     = [\<lparr>sdr_type = ''rtlsdr'', address = ''001:003'', serial_probed = PyStr ''00000001''\<rparr>]"
    by code_simp
  have r: "resolved lone_rtlsdr_env
     \<lparr>sdr_type = ''rtlsdr'', address = ''001:003'', serial_probed = PyStr ''00000001''\<rparr>
     = PyStr ''00000001''"
    by (simp add: resolved_def SDR_serial_def)
  from lone_device_assignment [OF s h e l] s h e l r show ?thesis by simp
qed

text \<open>
  C2 as the spec states it fails: a lone rtlsdr with serial \<open>978\<close> is assigned to 978,
  and 1090 stays empty.
\<close>

theorem lone_device_assignment_counterexample:
  "returns (addresses_per_frequency lone_978_env (SDRDevices_init, empty_world)) \<and>
   fst (result (addresses_per_frequency lone_978_env (SDRDevices_init, empty_world))) 1090
     = Some (PyStr []) \<and>
   fst (result (addresses_per_frequency lone_978_env (SDRDevices_init, empty_world))) 978
     = Some (PyStr ''978'') \<and>
   sdrs (fst (snd (result (addresses_per_frequency lone_978_env (SDRDevices_init, empty_world)))))
     = [\<lparr>sdr_type = ''rtlsdr'', address = ''001:003'', serial_probed = PyStr ''978''\<rparr>]"
  by code_simp

section \<open>The cache window\<close>

text \<open>
  C6, as the code has it. When the clock reads less than five seconds past the last
  refresh, \<open>_ensure_populated\<close> returns and changes nothing in the registry: the device
  list, the set of duplicates and the timestamp stay as they were, and no command is
  run. A query repeated in that window returns the mapping of the query before it,
  with the same devices, provided the verbose queries are steady and handled.
\<close>

theorem ensure_populated_within_ttl:
  assumes "now E (clock_reads w) - last_check self < 5000000"
  shows "returns (ensure_populated E (self, w)) \<and>
         fst (result (ensure_populated E (self, w))) = self \<and>
         sdrs (fst (result (ensure_populated E (self, w)))) = sdrs self \<and>
         duplicates (fst (result (ensure_populated E (self, w)))) = duplicates self \<and>
         last_check (fst (result (ensure_populated E (self, w)))) = last_check self \<and>
         runs (snd (result (ensure_populated E (self, w)))) = runs w \<and>
         (probes_steady E \<and> probes_handled E \<longrightarrow>
            (\<forall>ret self0 w0. addresses_per_frequency E (self0, w0) = Returned (ret, self, w) \<longrightarrow>
               returns (addresses_per_frequency E (self, w)) \<and>
               fst (result (addresses_per_frequency E (self, w))) = ret \<and>
               map (json_of E) (sdrs (fst (snd (result (addresses_per_frequency E (self, w))))))
                 = map (json_of E) (sdrs self) \<and>
               duplicates (fst (snd (result (addresses_per_frequency E (self, w))))) = duplicates self \<and>
               last_check (fst (snd (result (addresses_per_frequency E (self, w))))) = last_check self))"
proof -
  have fresh: "ensure_populated E (self, w) = Returned (self, w\<lparr>clock_reads := Suc (clock_reads w)\<rparr>)"
    using assms by (simp add: ensure_populated_fresh ttl_def)
  have again: "returns (addresses_per_frequency E (self, w)) \<and>
               fst (result (addresses_per_frequency E (self, w))) = ret \<and>
               map (json_of E) (sdrs (fst (snd (result (addresses_per_frequency E (self, w))))))
                 = map (json_of E) (sdrs self) \<and>
               duplicates (fst (snd (result (addresses_per_frequency E (self, w))))) = duplicates self \<and>
               last_check (fst (snd (result (addresses_per_frequency E (self, w))))) = last_check self"
    if s: "probes_steady E" and h: "probes_handled E"
      and prior: "addresses_per_frequency E (self0, w0) = Returned (ret, self, w)" for ret self0 w0
  proof -
    obtain self1 w1 where ep: "ensure_populated E (self0, w0) = Returned (self1, w1)"
      using prior_ensure_populated [OF prior] by blast
    let ?js = "map (json_of E) (sdrs self1)"
    obtain ds' w' where "addresses_per_frequency E (self0, w0)
        = Returned (pure_lone ?js (pure_assign ?js initial_ret), self1\<lparr>sdrs := ds'\<rparr>, w')"
      and m: "map (json_of E) ds' = ?js"
      using addresses_steady [OF s h ep] by blast
    with prior have ret: "ret = pure_lone ?js (pure_assign ?js initial_ret)"
      and self: "self = self1\<lparr>sdrs := ds'\<rparr>" by simp_all
    have js: "map (json_of E) (sdrs self) = ?js" using self m by simp
    obtain ds'' w'' where q: "addresses_per_frequency E (self, w)
        = Returned (pure_lone (map (json_of E) (sdrs self))
                      (pure_assign (map (json_of E) (sdrs self)) initial_ret),
                    self\<lparr>sdrs := ds''\<rparr>, w'')"
      and m': "map (json_of E) ds'' = map (json_of E) (sdrs self)"
      using addresses_steady [OF s h fresh] by blast
    show ?thesis using m' by (simp add: q js ret)
  qed
  from fresh again show ?thesis by simp
qed

theorem ensure_populated_within_ttl_witness:
  "now two_1090_env (clock_reads (snd (snd (result (addresses_per_frequency two_1090_env (SDRDevices_init, empty_world))))))
     - last_check (fst (snd (result (addresses_per_frequency two_1090_env (SDRDevices_init, empty_world))))) < 5000000 \<and>
   sdrs (fst (snd (result (addresses_per_frequency two_1090_env (SDRDevices_init, empty_world)))))
     = [\<lparr>sdr_type = ''rtlsdr'', address = ''001:003'', serial_probed = PyStr ''1090''\<rparr>,
        \<lparr>sdr_type = ''rtlsdr'', address = ''001:004'', serial_probed = PyStr ''1090''\<rparr>] \<and>
   duplicates (fst (snd (result (addresses_per_frequency two_1090_env (SDRDevices_init, empty_world)))))
     = {PyStr ''1090''} \<and>
   probes_steady two_1090_env \<and> probes_handled two_1090_env \<and>
   fst (result (ensure_populated two_1090_env
          (snd (result (addresses_per_frequency two_1090_env (SDRDevices_init, empty_world))))))
     = fst (snd (result (addresses_per_frequency two_1090_env (SDRDevices_init, empty_world)))) \<and>
   fst (result (addresses_per_frequency two_1090_env
          (snd (result (addresses_per_frequency two_1090_env (SDRDevices_init, empty_world))))))
     = fst (result (addresses_per_frequency two_1090_env (SDRDevices_init, empty_world)))"
proof -
  let ?Q = "addresses_per_frequency two_1090_env (SDRDevices_init, empty_world)"
  let ?self = "fst (snd (result ?Q))"
  let ?w = "snd (snd (result ?Q))"
  have rq: "returns ?Q" by code_simp
  have q: "?Q = Returned (fst (result ?Q), ?self, ?w)"
    using Returned_result [OF rq] by simp
  have t: "now two_1090_env (clock_reads ?w) - last_check ?self < 5000000" by code_simp
  have l: "sdrs ?self
     = [\<lparr>sdr_type = ''rtlsdr'', address = ''001:003'', serial_probed = PyStr ''1090''\<rparr>,
        \<lparr>sdr_type = ''rtlsdr'', address = ''001:004'', serial_probed = PyStr ''1090''\<rparr>]"
    by code_simp
  have d: "duplicates ?self = {PyStr ''1090''}" by code_simp
  have s: "probes_steady two_1090_env"
    by (simp add: probes_steady_def two_1090_env_def)
  have h: "probes_handled two_1090_env"
    by (simp add: probes_handled_def two_1090_env_def)
  from ensure_populated_within_ttl [OF t] s h q
  have "fst (result (ensure_populated two_1090_env (?self, ?w))) = ?self"
    and "fst (result (addresses_per_frequency two_1090_env (?self, ?w))) = fst (result ?Q)"
    by blast+
  with t l d s h show ?thesis by simp
qed

text \<open>
  C6 as the spec states it fails: a lone rtlsdr shows no serial during the first query
  and serial \<open>1090\<close> one second later. The second query is inside the window, serves
  the same registry, and returns 1090 for the role where the first returned \<open>None\<close>.
\<close>

theorem ensure_populated_within_ttl_counterexample:
  "returns (addresses_per_frequency late_serial_env (SDRDevices_init, empty_world)) \<and>
   fst (result (addresses_per_frequency late_serial_env (SDRDevices_init, empty_world))) 1090
     = Some PyNone \<and>
   now late_serial_env
       (clock_reads (snd (snd (result (addresses_per_frequency late_serial_env (SDRDevices_init, empty_world))))))
     - last_check (fst (snd (result (addresses_per_frequency late_serial_env (SDRDevices_init, empty_world)))))
     < 5000000 \<and>
   returns (addresses_per_frequency late_serial_env
     (snd (result (addresses_per_frequency late_serial_env (SDRDevices_init, empty_world))))) \<and>
   fst (result (addresses_per_frequency late_serial_env
     (snd (result (addresses_per_frequency late_serial_env (SDRDevices_init, empty_world)))))) 1090
     = Some (PyStr ''1090'')"
  by code_simp

section \<open>The duplicates\<close>

text \<open>
  C7, as the code has it. After a refresh whose listing command completed, and with
  verbose queries that are steady and handled, a serial is in \<open>duplicates\<close> exactly when
  more than one stored device has it. For two rtlsdr devices that both report \<open>1090\<close>,
  \<open>1090\<close> is in \<open>duplicates\<close> and the 1090 entry of the assignment is the one serial
  \<open>1090\<close>.
\<close>

theorem duplicates_after_refresh:
  assumes "probes_steady E" and "probes_handled E"
      and "5000000 \<le> now E (clock_reads w) - last_check self"
      and "run E (length (runs w)) ''lsusb'' = Completed listing"
  shows "returns (ensure_populated E (self, w)) \<and>
         (\<forall>s. (s \<in> duplicates (fst (result (ensure_populated E (self, w)))))
            = (1 < length (filter (\<lambda>d. resolved E d = s)
                             (sdrs (fst (result (ensure_populated E (self, w)))))))) \<and>
         (\<forall>d1 d2. sdrs (fst (result (ensure_populated E (self, w)))) = [d1, d2] \<and>
            sdr_type d1 = ''rtlsdr'' \<and> sdr_type d2 = ''rtlsdr'' \<and>
            resolved E d1 = PyStr ''1090'' \<and> resolved E d2 = PyStr ''1090'' \<longrightarrow>
              PyStr ''1090'' \<in> duplicates (fst (result (ensure_populated E (self, w)))) \<and>
              returns (addresses_per_frequency E (self, w)) \<and>
              fst (result (addresses_per_frequency E (self, w))) 1090 = Some (PyStr ''1090'')) \<and>
         (\<forall>d w'. returns (SDR_serial E d w') \<and> fst (result (SDR_serial E d w')) = resolved E d)"
proof -
  let ?reg = "fst (result (ensure_populated E (self, w)))"
  obtain ds dups t' w1 where ep: "ensure_populated E (self, w)
      = Returned (self\<lparr>sdrs := ds, duplicates := dups, last_check := t'\<rparr>, w1)"
    and dd: "dups = pure_dups (map (resolved E) ds) {} {}"
    using ensure_populated_completed [OF assms, of] by blast
  have ret: "returns (ensure_populated E (self, w))" by (simp add: ep)
  have dups: "duplicates ?reg = pure_dups (map (resolved E) (sdrs ?reg)) {} {}"
    by (simp add: ep dd)
  have iff: "(s \<in> duplicates ?reg) = (1 < length (filter (\<lambda>d. resolved E d = s) (sdrs ?reg)))" for s
    by (simp add: dups pure_dups_iff count_list_map_filter)
  have two: "PyStr ''1090'' \<in> duplicates ?reg \<and>
             returns (addresses_per_frequency E (self, w)) \<and>
             fst (result (addresses_per_frequency E (self, w))) 1090 = Some (PyStr ''1090'')"
    if l: "sdrs ?reg = [d1, d2]" and t: "sdr_type d1 = ''rtlsdr''" "sdr_type d2 = ''rtlsdr''"
      and r: "resolved E d1 = PyStr ''1090''" "resolved E d2 = PyStr ''1090''" for d1 d2
  proof -
    let ?self1 = "self\<lparr>sdrs := ds, duplicates := dups, last_check := t'\<rparr>"
    let ?js = "map (json_of E) (sdrs ?self1)"
    from l have l1: "sdrs ?self1 = [d1, d2]" by (simp add: ep)
    have js: "?js = [(''rtlsdr'', address d1, PyStr ''1090''), (''rtlsdr'', address d2, PyStr ''1090'')]"
      using t r by (simp only: l1) (simp add: json_of_def)
    obtain ds' w' where q: "addresses_per_frequency E (self, w)
        = Returned (pure_lone ?js (pure_assign ?js initial_ret), ?self1\<lparr>sdrs := ds'\<rparr>, w')"
      using addresses_steady [OF assms(1,2) ep] by blast
    have "pure_lone ?js (pure_assign ?js initial_ret) 1090 = Some (PyStr ''1090'')"
      unfolding js by (simp add: pure_lone_def initial_ret_def)
    with q have "returns (addresses_per_frequency E (self, w)) \<and>
                 fst (result (addresses_per_frequency E (self, w))) 1090 = Some (PyStr ''1090'')"
      by simp
    moreover have "PyStr ''1090'' \<in> duplicates ?reg"
      by (simp add: iff l r)
    ultimately show ?thesis by simp
  qed
  from ret iff two read_resolved [OF assms(1,2)] show ?thesis by blast
qed

theorem duplicates_after_refresh_witness:
  "probes_steady two_1090_env \<and> probes_handled two_1090_env \<and>
   5000000 \<le> now two_1090_env (clock_reads empty_world) - last_check SDRDevices_init \<and>
   run two_1090_env (length (runs empty_world)) ''lsusb''
     = Completed (''Bus 001 Device 003: ID 0bda:2838 Realtek RTL2838'' @ [CHR 0x0A] @
                  ''Bus 001 Device 004: ID 0bda:2838 Realtek RTL2838'' @ [CHR 0x0A]) \<and>
   sdrs (fst (result (ensure_populated two_1090_env (SDRDevices_init, empty_world))))
     = [\<lparr>sdr_type = ''rtlsdr'', address = ''001:003'', serial_probed = PyStr ''1090''\<rparr>,
        \<lparr>sdr_type = ''rtlsdr'', address = ''001:004'', serial_probed = PyStr ''1090''\<rparr>] \<and>
   PyStr ''1090'' \<in> duplicates (fst (result (ensure_populated two_1090_env (SDRDevices_init, empty_world)))) \<and>
   fst (result (addresses_per_frequency two_1090_env (SDRDevices_init, empty_world))) 1090
     = Some (PyStr ''1090'')"
proof -
  have s: "probes_steady two_1090_env"
    by (simp add: probes_steady_def two_1090_env_def)
  have h: "probes_handled two_1090_env"
    by (simp add: probes_handled_def two_1090_env_def)
  have t: "5000000 \<le> now two_1090_env (clock_reads empty_world) - last_check SDRDevices_init"
    by (simp add: two_1090_env_def empty_world_def SDRDevices_init_def)
  have c: "run two_1090_env (length (runs empty_world)) ''lsusb''
     = Completed (''Bus 001 Device 003: ID 0bda:2838 Realtek RTL2838'' @ [CHR 0x0A] @
                  ''Bus 001 Device 004: ID 0bda:2838 Realtek RTL2838'' @ [CHR 0x0A])"
    by (simp add: two_1090_env_def)
  have l: "sdrs (fst (result (ensure_populated two_1090_env (SDRDevices_init, empty_world))))
     = [\<lparr>sdr_type = ''rtlsdr'', address = ''001:003'', serial_probed = PyStr ''1090''\<rparr>,
        \<lparr>sdr_type = ''rtlsdr'', address = ''001:004'', serial_probed = PyStr ''1090''\<rparr>]"
    by code_simp
  have r: "resolved two_1090_env
     \<lparr>sdr_type = ''rtlsdr'', address = a, serial_probed = PyStr ''1090''\<rparr> = PyStr ''1090''" for a
    by (simp add: resolved_def SDR_serial_def)
  from duplicates_after_refresh [OF s h t c] l r
  have "PyStr ''1090'' \<in> duplicates (fst (result (ensure_populated two_1090_env (SDRDevices_init, empty_world)))) \<and>
        fst (result (addresses_per_frequency two_1090_env (SDRDevices_init, empty_world))) 1090
          = Some (PyStr ''1090'')"
    by simp
  with s h t c l show ?thesis by simp
qed

text \<open>
  C7 as the spec states it fails: each of two devices shows an empty serial at the test
  \<open>sdr._serial in found_serials\<close> and serial \<open>S\<close> at the \<open>add\<close> after it. The refresh
  ends with both devices holding \<open>S\<close> and with an empty set of duplicates.
\<close>

theorem duplicates_after_refresh_counterexample:
  "5000000 \<le> now late_duplicates_env (clock_reads empty_world) - last_check SDRDevices_init \<and>
   run late_duplicates_env (length (runs empty_world)) ''lsusb''
     = Completed (''Bus 001 Device 003: ID 0bda:2838 Realtek RTL2838'' @ [CHR 0x0A] @
                  ''Bus 001 Device 004: ID 0bda:2838 Realtek RTL2838'' @ [CHR 0x0A]) \<and>
   returns (ensure_populated late_duplicates_env (SDRDevices_init, empty_world)) \<and>
   sdrs (fst (result (ensure_populated late_duplicates_env (SDRDevices_init, empty_world))))
     = [\<lparr>sdr_type = ''rtlsdr'', address = ''001:003'', serial_probed = PyStr ''S''\<rparr>,
        \<lparr>sdr_type = ''rtlsdr'', address = ''001:004'', serial_probed = PyStr ''S''\<rparr>] \<and>
   duplicates (fst (result (ensure_populated late_duplicates_env (SDRDevices_init, empty_world)))) = {} \<and>
   returns (SDR_serial late_duplicates_env
     (sdrs (fst (result (ensure_populated late_duplicates_env (SDRDevices_init, empty_world)))) ! 0)
     (snd (result (ensure_populated late_duplicates_env (SDRDevices_init, empty_world))))) \<and>
   returns (SDR_serial late_duplicates_env
     (sdrs (fst (result (ensure_populated late_duplicates_env (SDRDevices_init, empty_world)))) ! 1)
     (snd (result (ensure_populated late_duplicates_env (SDRDevices_init, empty_world))))) \<and>
   fst (result (SDR_serial late_duplicates_env
     (sdrs (fst (result (ensure_populated late_duplicates_env (SDRDevices_init, empty_world)))) ! 0)
     (snd (result (ensure_populated late_duplicates_env (SDRDevices_init, empty_world))))))
     = PyStr ''S'' \<and>
   fst (result (SDR_serial late_duplicates_env
     (sdrs (fst (result (ensure_populated late_duplicates_env (SDRDevices_init, empty_world)))) ! 1)
     (snd (result (ensure_populated late_duplicates_env (SDRDevices_init, empty_world))))))
     = PyStr ''S''"
  by code_simp

section \<open>Stored settings replace the guesses\<close>





end
